theory Spec2Isabelle
  imports Main "HOL-Library.AList"
begin

section \<open>JavaScript values and strings\<close>

text \<open>
  The server of \<^verbatim>\<open>test-integration.ts\<close> moves three kinds of data around: header and
  query strings, the bodies of the identity provider's replies (typed \<^verbatim>\<open>any\<close>), and
  its own session objects. A string is a list of characters; header values reach the
  program decoded one character per byte. A value of type \<^verbatim>\<open>any\<close> is a parsed
  JSON value, and \<open>None\<close> at type \<open>json option\<close> is JavaScript's \<^verbatim>\<open>undefined\<close>.
  A JSON number is carried by the string that \<^verbatim>\<open>String(n)\<close> gives for it: the program
  never calculates with one, it only tests it for truth and prints it. The members of
  \<open>JObj\<close> are those of the parsed object, so their names are distinct.
\<close>

datatype json =
    JNull
  | JBool bool
  | JNum string
  | JStr string
  | JArr "json list"
  | JObj "(string \<times> json) list"

text \<open>The truth test applied by \<^verbatim>\<open>if (x)\<close>, \<^verbatim>\<open>!x\<close>, \<^verbatim>\<open>x ? a : b\<close> and \<^verbatim>\<open>x || y\<close>.\<close>

fun js_truthy :: "json option \<Rightarrow> bool" where
  "js_truthy None = False"
| "js_truthy (Some JNull) = False"
| "js_truthy (Some (JBool b)) = b"
| "js_truthy (Some (JNum n)) = (n \<noteq> ''0'')"
| "js_truthy (Some (JStr s)) = (s \<noteq> [])"
| "js_truthy (Some (JArr xs)) = True"
| "js_truthy (Some (JObj kvs)) = True"

definition js_or :: "json option \<Rightarrow> json option \<Rightarrow> json option" where
  "js_or a b = (if js_truthy a then a else b)"

text \<open>
  An exception, with its message. The program meets only \<^verbatim>\<open>TypeError\<close>.
\<close>

datatype js_error = TypeError string

fun error_message :: "js_error \<Rightarrow> string" where
  "error_message (TypeError msg) = msg"

text \<open>
  The string a template literal \<^verbatim>\<open>`${x}`\<close> inserts, or the exception the conversion
  throws. An array prints its elements separated by commas, with nothing for a \<^verbatim>\<open>null\<close>
  element. An object prints as \<^verbatim>\<open>[object Object]\<close> through the \<^verbatim>\<open>toString\<close> it inherits;
  when it has a member of its own named \<^verbatim>\<open>toString\<close>, that member is parsed data and
  cannot be called, the inherited \<^verbatim>\<open>valueOf\<close> gives back the object, and the conversion
  throws. A member of its own named \<^verbatim>\<open>valueOf\<close> is never asked, since \<^verbatim>\<open>toString\<close> is
  tried first.
\<close>

fun js_to_string :: "json \<Rightarrow> js_error + string"
  and js_join :: "json list \<Rightarrow> js_error + string"
  and js_element :: "json \<Rightarrow> js_error + string" where
  "js_to_string JNull = Inr ''null''"
| "js_to_string (JBool b) = Inr (if b then ''true'' else ''false'')"
| "js_to_string (JNum n) = Inr n"
| "js_to_string (JStr s) = Inr s"
| "js_to_string (JArr xs) = js_join xs"
| "js_to_string (JObj kvs) =
     (if map_of kvs ''toString'' = None then Inr ''[object Object]''
      else Inl (TypeError ''Cannot convert object to primitive value''))"
| "js_join [] = Inr []"
| "js_join [x] = js_element x"
| "js_join (x # y # ys) =
     (case js_element x of
        Inl e \<Rightarrow> Inl e
      | Inr a \<Rightarrow> (case js_join (y # ys) of
                   Inl e \<Rightarrow> Inl e
                 | Inr b \<Rightarrow> Inr (a @ '','' @ b)))"
| "js_element JNull = Inr []"
| "js_element (JBool b) = js_to_string (JBool b)"
| "js_element (JNum n) = js_to_string (JNum n)"
| "js_element (JStr s) = js_to_string (JStr s)"
| "js_element (JArr xs) = js_to_string (JArr xs)"
| "js_element (JObj kvs) = js_to_string (JObj kvs)"

definition js_template :: "json option \<Rightarrow> js_error + string" where
  "js_template v = (case v of None \<Rightarrow> Inr ''undefined'' | Some x \<Rightarrow> js_to_string x)"

text \<open>
  Reading a member \<^verbatim>\<open>x.name\<close> of a value that is not \<^verbatim>\<open>null\<close>. The names the program
  reads (\<^verbatim>\<open>id_token\<close>, \<^verbatim>\<open>access_token\<close>, \<^verbatim>\<open>refresh_token\<close>, \<^verbatim>\<open>preferred_username\<close>,
  \<^verbatim>\<open>email\<close>, \<^verbatim>\<open>error_description\<close>) are no built-in members of strings, numbers,
  booleans or arrays, so only an object can answer. On \<^verbatim>\<open>null\<close> the read throws a
  \<^verbatim>\<open>TypeError\<close>; every caller tests for \<open>JNull\<close> before it calls \<open>js_member\<close>.
\<close>

fun js_member :: "json \<Rightarrow> string \<Rightarrow> json option" where
  "js_member (JObj kvs) name = map_of kvs name"
| "js_member v name = None"

text \<open>The optional chain \<^verbatim>\<open>x?.name\<close>: \<^verbatim>\<open>undefined\<close> when \<^verbatim>\<open>x\<close> is \<^verbatim>\<open>undefined\<close> or \<^verbatim>\<open>null\<close>.\<close>

definition js_member_opt :: "json option \<Rightarrow> string \<Rightarrow> json option" where
  "js_member_opt x name =
     (case x of None \<Rightarrow> None | Some JNull \<Rightarrow> None | Some v \<Rightarrow> js_member v name)"

text \<open>\<^verbatim>\<open>String.prototype.split\<close> with a one-character separator.\<close>

fun split :: "char \<Rightarrow> string \<Rightarrow> string list" where
  "split sep [] = [[]]"
| "split sep (c # cs) =
     (if c = sep then [] # split sep cs
      else (case split sep cs of
              [] \<Rightarrow> [[c]]
            | w # ws \<Rightarrow> (c # w) # ws))"

text \<open>
  \<^verbatim>\<open>String.prototype.trim\<close> removes white space and line terminators at both ends.
  Among the characters a header value can hold these are the codes 9 to 13, 32 and 160.
\<close>

definition js_whitespace :: "char \<Rightarrow> bool" where
  "js_whitespace c = ((of_char c :: nat) \<in> {9, 10, 11, 12, 13, 32, 160})"

definition trim :: "string \<Rightarrow> string" where
  "trim s = rev (dropWhile js_whitespace (rev (dropWhile js_whitespace s)))"

definition startsWith :: "string \<Rightarrow> string \<Rightarrow> bool" where
  "startsWith s p = (take (length p) s = p)"

text \<open>
  \<^verbatim>\<open>encodeURIComponent\<close> on a string given by its UTF-8 bytes (the configuration comes
  from the process environment): letters, digits and the marks \<^verbatim>\<open>-_.!~*'()\<close> stay,
  every other byte becomes \<^verbatim>\<open>%XX\<close> with upper-case hexadecimal digits.
\<close>

definition uri_unreserved :: "char \<Rightarrow> bool" where
  "uri_unreserved c =
     (c \<in> set ''ABCDEFGHIJKLMNOPQRSTUVWXYZabcdefghijklmnopqrstuvwxyz0123456789-_.!~*()''
      \<or> c = CHR 0x27)"

definition hex_digit :: "nat \<Rightarrow> char" where
  "hex_digit n = ''0123456789ABCDEF'' ! (n mod 16)"

definition encodeURIComponent :: "string \<Rightarrow> string" where
  "encodeURIComponent s =
     concat (map (\<lambda>c. if uri_unreserved c then [c]
                       else [CHR ''%'', hex_digit (of_char c div 16), hex_digit (of_char c)]) s)"

text \<open>Decimal digits of a number, as \<^verbatim>\<open>String(n)\<close> prints a status code.\<close>

fun decimal :: "nat \<Rightarrow> string" where
  "decimal n =
     (if n < 10 then [''0123456789'' ! n]
      else decimal (n div 10) @ [''0123456789'' ! (n mod 10)])"

section \<open>Session identifier resolution\<close>

text \<open>
  Of an Express request the handlers read \<^verbatim>\<open>req.headers.cookie\<close>,
  \<^verbatim>\<open>req.headers.authorization\<close> and \<^verbatim>\<open>req.query.code\<close>; the last is cast
  \<^verbatim>\<open>as string\<close> by the source. \<open>None\<close> is an absent header or parameter.
\<close>

record request =
  cookie :: "string option"
  authorization :: "string option"
  query_code :: "string option"

text \<open>
  \<^verbatim>\<open>getSessionId\<close>, lines 195 to 208. A string is truthy when it is not empty. The
  element \<^verbatim>\<open>[1]\<close> of the split always exists, since the chosen cookie starts with
  \<^verbatim>\<open>sessionId=\<close> (lemma \<open>split_sessionCookie\<close> below).
\<close>

definition getSessionId :: "request \<Rightarrow> string" where
  "getSessionId req =
     (let fallback = (case authorization req of
                        None \<Rightarrow> ''default''
                      | Some a \<Rightarrow> if a \<noteq> [] then a else ''default'')
      in case cookie req of
           None \<Rightarrow> fallback
         | Some cookieHeader \<Rightarrow>
             if cookieHeader \<noteq> [] then
               (let cookies = map trim (split CHR '';'' cookieHeader)
                in case find (\<lambda>c. startsWith c ''sessionId='') cookies of
                     None \<Rightarrow> fallback
                   | Some sessionCookie \<Rightarrow>
                       if sessionCookie \<noteq> [] then split CHR ''='' sessionCookie ! 1
                       else fallback)
             else fallback)"

text \<open>
  The resolution as the specification words it: the value of the cookie named
  \<^verbatim>\<open>sessionId\<close>, taken verbatim (all that follows the name and the equals sign),
  else the \<^verbatim>\<open>Authorization\<close> header, else the literal \<^verbatim>\<open>default\<close>.
\<close>

definition spec_sessionCookie :: "request \<Rightarrow> string option" where
  "spec_sessionCookie req =
     (case cookie req of
        None \<Rightarrow> None
      | Some cookieHeader \<Rightarrow>
          map_option (drop (length ''sessionId=''))
            (find (\<lambda>c. startsWith c ''sessionId='') (map trim (split CHR '';'' cookieHeader))))"

definition spec_resolveSessionId :: "request \<Rightarrow> string" where
  "spec_resolveSessionId req =
     (case spec_sessionCookie req of
        Some v \<Rightarrow> v
      | None \<Rightarrow> (case authorization req of
                   Some a \<Rightarrow> if a \<noteq> [] then a else ''default''
                 | None \<Rightarrow> ''default''))"

section \<open>Configuration, sessions and server state\<close>

text \<open>
  \<^verbatim>\<open>keycloakConfig\<close>, lines 37 to 50. The values come from the environment;
  \<open>default_config\<close> holds the fallbacks the source gives.
\<close>

record keycloakConfig =
  endpoint :: string
  clientId :: string
  clientSecret :: string
  redirectUri :: string
  logoutRedirectUri :: string
  scope :: string

definition default_config :: keycloakConfig where
  "default_config =
     \<lparr>endpoint = ''https://auth-dev.curriculobe.com.br/realms/bestema-dev'',
      clientId = [],
      clientSecret = [],
      redirectUri = ''http://localhost:3000/callback'',
      logoutRedirectUri = ''http://localhost:3000/logout-success'',
      scope = ''openid profile email''\<rparr>"

text \<open>
  \<^verbatim>\<open>LogEntry\<close> and \<^verbatim>\<open>UserSession\<close>, lines 70 to 77 and 148 to 159. The time stamp of a
  log entry is a reading of the wall clock and is left out; no handler branches on it.
  The token fields are declared
  \<^verbatim>\<open>string\<close> but receive members of a reply typed \<^verbatim>\<open>any\<close> unchecked, so they hold
  whatever JSON value the reply carried.
\<close>

datatype log_type = Info | Success | Error | Warning

record LogEntry =
  message :: string
  type :: log_type

record UserSession =
  idToken :: "json option"
  accessToken :: "json option"
  refreshToken :: "json option"
  userInfo :: "json option"
  isAuthenticated :: bool

text \<open>
  The map \<^verbatim>\<open>sessions\<close> holds references to session objects, and the callback handler
  writes to an object after it has put it into the map. So the state keeps the objects
  in a heap: \<open>sessions\<close> lists the keys of the map in insertion order, each with the
  address of its object, \<open>heap\<close> gives the object at an address, and \<open>allocated\<close>
  counts the objects created so far (the next free address).
\<close>

record server_state =
  sessions :: "(string \<times> nat) list"
  heap :: "nat \<Rightarrow> UserSession option"
  allocated :: nat
  logs :: "LogEntry list"

definition initial_state :: server_state where
  "initial_state = \<lparr>sessions = [], heap = (\<lambda>r. None), allocated = 0, logs = []\<rparr>"

text \<open>\<^verbatim>\<open>sessions.get(id)\<close> followed by a read of the object: \<open>None\<close> is \<^verbatim>\<open>undefined\<close>.\<close>

definition sessions_get :: "server_state \<Rightarrow> string \<Rightarrow> UserSession option" where
  "sessions_get st sessionId =
     (case map_of (sessions st) sessionId of
        None \<Rightarrow> None
      | Some r \<Rightarrow> heap st r)"

definition sessions_size :: "server_state \<Rightarrow> nat" where
  "sessions_size st = length (sessions st)"

section \<open>Responses and effects\<close>

text \<open>
  The pictographs that start the messages and the status texts, each written as the
  bytes of its UTF-8 encoding.
\<close>

definition cross_mark :: string where
  "cross_mark = [CHR 0xE2, CHR 0x9D, CHR 0x8C]"

definition green_circle :: string where
  "green_circle = [CHR 0xF0, CHR 0x9F, CHR 0x9F, CHR 0xA2]"

definition bar_chart :: string where
  "bar_chart = [CHR 0xF0, CHR 0x9F, CHR 0x93, CHR 0x8A]"

definition key_sign :: string where
  "key_sign = [CHR 0xF0, CHR 0x9F, CHR 0x94, CHR 0x91]"

definition arrows_sign :: string where
  "arrows_sign = [CHR 0xF0, CHR 0x9F, CHR 0x94, CHR 0x84]"

definition party_popper :: string where
  "party_popper = [CHR 0xF0, CHR 0x9F, CHR 0x8E, CHR 0x89]"

definition bust_sign :: string where
  "bust_sign = [CHR 0xF0, CHR 0x9F, CHR 0x91, CHR 0xA4]"

definition warning_sign :: string where
  "warning_sign = [CHR 0xE2, CHR 0x9A, CHR 0xA0, CHR 0xEF, CHR 0xB8, CHR 0x8F]"

definition check_mark :: string where
  "check_mark = [CHR 0xE2, CHR 0x9C, CHR 0x85]"

definition door_sign :: string where
  "door_sign = [CHR 0xF0, CHR 0x9F, CHR 0x9A, CHR 0xAA]"

text \<open>
  The payload of \<^verbatim>\<open>/api/status\<close> and the payload of the error handler (the
  \<^verbatim>\<open>timestamp\<close> of each left out), and what a handler does to the Express response:
  the status code (200 until changed), the headers set through \<^verbatim>\<open>setHeader\<close>, the
  argument of \<^verbatim>\<open>res.redirect\<close> and the argument of \<^verbatim>\<open>res.json\<close>. While \<open>location\<close>
  and \<open>body\<close> are both \<open>None\<close>, no response has been sent.
\<close>

record status_payload =
  p_server :: string
  p_user :: string
  p_userInfo :: json
  p_sessions :: nat
  p_logs :: nat
  p_sessionId :: string

record error_payload =
  p_error :: string
  p_message :: string

datatype json_body =
    StatusBody status_payload
  | ErrorBody error_payload

record response =
  statusCode :: nat
  headers :: "(string \<times> string) list"
  location :: "string option"
  body :: "json_body option"

text \<open>
  Every statement that touches the session map, a session object, the network or the
  response adds an event to the trace of the request, in program order.
\<close>

datatype event =
    Allocated nat UserSession
  | UserInfoAssigned nat json
  | SessionsSet string nat
  | SessionsDelete string
  | AxiosPost string "(string \<times> string) list"
  | AxiosGet string "(string \<times> string) list"
  | SetHeader string string
  | Redirect string
  | Json json_body

text \<open>
  The run of a handler: the server state, the response, the events so far, and in
  \<open>rejected\<close> the exception that left an \<^verbatim>\<open>async\<close> handler uncaught, with which its
  promise rejects.
\<close>

record ctx =
  state :: server_state
  res :: response
  trace :: "event list"
  rejected :: "js_error option"

definition new_ctx :: "server_state \<Rightarrow> ctx" where
  "new_ctx st =
     \<lparr>state = st,
      res = \<lparr>statusCode = 200, headers = [], location = None, body = None\<rparr>,
      trace = [],
      rejected = None\<rparr>"

definition emit :: "event \<Rightarrow> ctx \<Rightarrow> ctx" where
  "emit e c = c\<lparr>trace := trace c @ [e]\<rparr>"

text \<open>
  \<^verbatim>\<open>addLog\<close>, lines 102 to 142: the entry is appended and only the last 100 entries
  are kept. Writing the entry to the console and to the open log streams changes
  nothing a handler reads, and is left out.
\<close>

definition addLog :: "string \<Rightarrow> log_type \<Rightarrow> ctx \<Rightarrow> ctx" where
  "addLog msg ty c =
     (let pushed = logs (state c) @ [\<lparr>message = msg, type = ty\<rparr>];
          kept = (if length pushed > 100 then drop (length pushed - 100) pushed else pushed)
      in c\<lparr>state := (state c)\<lparr>logs := kept\<rparr>\<rparr>)"

text \<open>An object literal of type \<^verbatim>\<open>UserSession\<close>: a new object at the next free address.\<close>

definition new_UserSession :: "UserSession \<Rightarrow> ctx \<Rightarrow> nat \<times> ctx" where
  "new_UserSession s c =
     (let r = allocated (state c)
      in (r, emit (Allocated r s)
               (c\<lparr>state := (state c)\<lparr>heap := (heap (state c))(r \<mapsto> s),
                                       allocated := Suc r\<rparr>\<rparr>)))"

text \<open>\<^verbatim>\<open>userSession.userInfo = data\<close> on the object at address \<open>r\<close>.\<close>

definition assign_userInfo :: "nat \<Rightarrow> json \<Rightarrow> ctx \<Rightarrow> ctx" where
  "assign_userInfo r v c =
     emit (UserInfoAssigned r v)
       (c\<lparr>state := (state c)\<lparr>heap := (\<lambda>a. if a = r
                                             then map_option (\<lambda>s. s\<lparr>userInfo := Some v\<rparr>) (heap (state c) r)
                                             else heap (state c) a)\<rparr>\<rparr>)"

text \<open>
  \<^verbatim>\<open>sessions.set\<close> keeps the place of a key that is already there and appends a new
  one; \<^verbatim>\<open>sessions.delete\<close> of a missing key changes nothing.
\<close>

definition sessions_set :: "string \<Rightarrow> nat \<Rightarrow> ctx \<Rightarrow> ctx" where
  "sessions_set sessionId r c =
     emit (SessionsSet sessionId r)
       (c\<lparr>state := (state c)\<lparr>sessions := AList.update sessionId r (sessions (state c))\<rparr>\<rparr>)"

definition sessions_delete :: "string \<Rightarrow> ctx \<Rightarrow> ctx" where
  "sessions_delete sessionId c =
     emit (SessionsDelete sessionId)
       (c\<lparr>state := (state c)\<lparr>sessions := AList.delete sessionId (sessions (state c))\<rparr>\<rparr>)"

definition res_setHeader :: "string \<Rightarrow> string \<Rightarrow> ctx \<Rightarrow> ctx" where
  "res_setHeader name v c =
     emit (SetHeader name v) (c\<lparr>res := (res c)\<lparr>headers := AList.update name v (headers (res c))\<rparr>\<rparr>)"

text \<open>\<^verbatim>\<open>res.redirect(url)\<close> answers 302; \<open>location\<close> keeps the argument as passed.\<close>

definition res_redirect :: "string \<Rightarrow> ctx \<Rightarrow> ctx" where
  "res_redirect url c =
     emit (Redirect url) (c\<lparr>res := (res c)\<lparr>statusCode := 302, location := Some url\<rparr>\<rparr>)"

definition res_status :: "nat \<Rightarrow> ctx \<Rightarrow> ctx" where
  "res_status code c = c\<lparr>res := (res c)\<lparr>statusCode := code\<rparr>\<rparr>"

definition res_json :: "json_body \<Rightarrow> ctx \<Rightarrow> ctx" where
  "res_json p c = emit (Json p) (c\<lparr>res := (res c)\<lparr>body := Some p\<rparr>\<rparr>)"

text \<open>
  The error handler of lines 589 to 596. Express calls it with the exception that a
  handler throws while it runs synchronously.
\<close>

definition errorMiddleware :: "js_error \<Rightarrow> ctx \<Rightarrow> ctx" where
  "errorMiddleware error c =
     res_json (ErrorBody \<lparr>p_error = ''Internal server error'', p_message = error_message error\<rparr>)
       (res_status 500
          (addLog (cross_mark @ '' Internal server error: '' @ error_message error) Error c))"

section \<open>Calls to the identity provider\<close>

text \<open>
  What comes back from the provider is an input of the model: no reply at all, or a
  reply with a status code and a parsed body. \<^verbatim>\<open>axios\<close> with its default settings
  resolves with the body when the status is at least 200 and below 300, and rejects
  otherwise. Of the rejection the handler reads \<^verbatim>\<open>error.message\<close> and
  \<^verbatim>\<open>error.response?.data\<close> (\<open>None\<close> when there was no response).
\<close>

datatype http_outcome =
    NetworkError string
  | HttpResponse nat json

record axios_error =
  err_message :: string
  err_response :: "json option"

definition validateStatus :: "nat \<Rightarrow> bool" where
  "validateStatus status = (200 \<le> status \<and> status < 300)"

definition axios_settle :: "http_outcome \<Rightarrow> axios_error + json" where
  "axios_settle outcome =
     (case outcome of
        NetworkError msg \<Rightarrow> Inl \<lparr>err_message = msg, err_response = None\<rparr>
      | HttpResponse status data \<Rightarrow>
          if validateStatus status then Inr data
          else Inl \<lparr>err_message = ''Request failed with status code '' @ decimal status,
                    err_response = Some data\<rparr>)"

text \<open>
  The inputs of one run of the callback handler besides the request: the string
  \<^verbatim>\<open>generateSessionId()\<close> returns if it is called (two draws of \<^verbatim>\<open>Math.random\<close>), and
  the outcomes of the two calls to the provider. The handler is modelled as one step:
  nothing else runs while it awaits a reply.
\<close>

record callback_env =
  generated_id :: string
  token_reply :: http_outcome
  userinfo_reply :: http_outcome

section \<open>The handlers\<close>

text \<open>
  The handlers of \<^verbatim>\<open>/login\<close>, \<^verbatim>\<open>/api/status\<close> and \<^verbatim>\<open>/logout\<close> run synchronously: an
  exception one of them throws reaches the error handler, which answers 500. The
  handler of \<^verbatim>\<open>/callback\<close> is \<^verbatim>\<open>async\<close>: an exception that leaves it rejects its
  promise and the handler sends nothing; what the framework does with the rejected
  promise is not part of the model.
\<close>

text \<open>\<^verbatim>\<open>GET /login\<close>, lines 354 to 364.\<close>

definition login :: "keycloakConfig \<Rightarrow> request \<Rightarrow> server_state \<Rightarrow> ctx" where
  "login cfg req st =
     (let authUrl =
            endpoint cfg @ ''/protocol/openid-connect/auth?'' @
            ''client_id='' @ clientId cfg @ ''&'' @
            ''redirect_uri='' @ encodeURIComponent (redirectUri cfg) @ ''&'' @
            ''response_type=code&'' @
            ''scope='' @ encodeURIComponent (scope cfg)
      in res_redirect authUrl
           (addLog (key_sign @ '' Redirecting to Keycloak for authentication...'') Info
              (new_ctx st)))"

text \<open>
  \<^verbatim>\<open>GET /api/status\<close>, lines 311 to 339. A missing session is read as
  \<^verbatim>\<open>{ isAuthenticated: false }\<close>, an object that is never stored (line 313).
\<close>

definition session_or_anonymous :: "server_state \<Rightarrow> string \<Rightarrow> UserSession" where
  "session_or_anonymous st sessionId =
     (case sessions_get st sessionId of
        Some s \<Rightarrow> s
      | None \<Rightarrow> \<lparr>idToken = None, accessToken = None, refreshToken = None,
                  userInfo = None, isAuthenticated = False\<rparr>)"

text \<open>
  Lines 315 to 326: the status text and the \<^verbatim>\<open>userInfo\<close> of the payload, or the
  exception that the template literal of line 321 throws on a user name that cannot be
  converted to a string.
\<close>

definition user_status :: "UserSession \<Rightarrow> js_error + string \<times> json" where
  "user_status userSession =
     (if isAuthenticated userSession then
        (case userInfo userSession of
           None \<Rightarrow> Inr (green_circle @ '' Authenticated'', JNull)
         | Some ui \<Rightarrow>
             if js_truthy (Some ui) then
               (let username = js_or (js_or (js_member ui ''preferred_username'')
                                            (js_member ui ''email''))
                                     (Some (JStr ''User''))
                in case js_template username of
                     Inl error \<Rightarrow> Inl error
                   | Inr name \<Rightarrow> Inr (green_circle @ '' Authenticated ('' @ name @ '')'', ui))
             else Inr (green_circle @ '' Authenticated'', JNull))
      else Inr (cross_mark @ '' Not Authenticated'', JNull))"

definition status :: "request \<Rightarrow> server_state \<Rightarrow> ctx" where
  "status req st =
     (let sessionId = getSessionId req;
          userSession = session_or_anonymous st sessionId
      in case user_status userSession of
           Inl error \<Rightarrow> errorMiddleware error (new_ctx st)
         | Inr (userStatus, info) \<Rightarrow>
             (let c1 = res_json (StatusBody \<lparr>p_server = green_circle @ '' Server Online'',
                                             p_user = userStatus,
                                             p_userInfo = info,
                                             p_sessions = sessions_size st,
                                             p_logs = length (logs st),
                                             p_sessionId = sessionId\<rparr>) (new_ctx st)
              in addLog (bar_chart @ '' Status checked for session: '' @ take 8 sessionId @ ''...'')
                   Info c1))"

text \<open>\<^verbatim>\<open>GET /callback\<close>, lines 384 to 460, in four parts.\<close>

definition callback_no_code :: "ctx \<Rightarrow> ctx" where
  "callback_no_code c =
     res_redirect ''/?error=no_auth_code''
       (addLog (cross_mark @ '' Authorization code not found in callback'') Error c)"

text \<open>
  The \<^verbatim>\<open>catch\<close> block of lines 453 to 459. When the value it prints cannot be converted
  to a string, the template literal of line 455 throws inside the \<^verbatim>\<open>catch\<close> block:
  nothing is logged, line 458 is not reached, and the exception leaves the handler.
\<close>

definition errorMsg :: "axios_error \<Rightarrow> json option" where
  "errorMsg error =
     js_or (js_or (js_member_opt (err_response error) ''error_description'')
                  (err_response error))
           (Some (JStr (err_message error)))"

definition callback_failed :: "axios_error \<Rightarrow> ctx \<Rightarrow> ctx" where
  "callback_failed error c =
     (case js_template (errorMsg error) of
        Inl thrown \<Rightarrow> c\<lparr>rejected := Some thrown\<rparr>
      | Inr msg \<Rightarrow>
          res_redirect ''/?error=auth_failed''
            (addLog (cross_mark @ '' Error obtaining tokens: '' @ msg) Error c))"

text \<open>
  The inner \<^verbatim>\<open>try\<close> of lines 430 to 444. Every exception in it ends in the inner
  \<^verbatim>\<open>catch\<close>, which logs a warning: when the access token cannot be converted to a
  string (line 435), before any call is made; when the call fails; and when the log line
  441 throws, on a body \<^verbatim>\<open>null\<close> or on a user name that cannot be converted, after the
  body has been assigned at line 440.
\<close>

definition callback_userinfo :: "keycloakConfig \<Rightarrow> http_outcome \<Rightarrow> json option \<Rightarrow> nat \<Rightarrow> ctx \<Rightarrow> ctx" where
  "callback_userinfo cfg reply access_token r c =
     (case js_template access_token of
        Inl thrown \<Rightarrow> addLog (warning_sign @ '' Could not fetch user information'') Warning c
      | Inr bearer \<Rightarrow>
          (let c1 = emit (AxiosGet (endpoint cfg @ ''/protocol/openid-connect/userinfo'')
                            [(''Authorization'', ''Bearer '' @ bearer)]) c
           in case axios_settle reply of
                Inl userInfoError \<Rightarrow>
                  addLog (warning_sign @ '' Could not fetch user information'') Warning c1
              | Inr data \<Rightarrow>
                  (let c2 = assign_userInfo r data c1
                   in if data = JNull then
                        addLog (warning_sign @ '' Could not fetch user information'') Warning c2
                      else
                        (case js_template (js_or (js_member data ''preferred_username'')
                                                 (js_member data ''email'')) of
                           Inl thrown \<Rightarrow>
                             addLog (warning_sign @ '' Could not fetch user information'') Warning c2
                         | Inr name \<Rightarrow>
                             addLog (bust_sign @ '' User authenticated: '' @ name) Success c2))))"

text \<open>
  The handler. A body \<^verbatim>\<open>null\<close> of a 2xx token reply makes the read of
  \<^verbatim>\<open>tokenResponse.data.id_token\<close> throw inside the outer \<^verbatim>\<open>try\<close>, after the log line
  of line 417 and before anything is stored.
\<close>

definition callback :: "keycloakConfig \<Rightarrow> callback_env \<Rightarrow> request \<Rightarrow> server_state \<Rightarrow> ctx" where
  "callback cfg env req st =
     (let c0 = new_ctx st;
          authCode = query_code req;
          sessionId = (if getSessionId req = ''default'' then generated_id env
                       else getSessionId req)
      in case authCode of
           None \<Rightarrow> callback_no_code c0
         | Some code \<Rightarrow>
             if code = [] then callback_no_code c0
             else
               (let c1 = addLog (arrows_sign @ '' Authorization code received: '' @
                                 take 20 code @ ''...'') Success c0;
                    c2 = addLog (arrows_sign @ '' Exchanging code for access tokens...'') Info c1;
                    tokenEndpoint = endpoint cfg @ ''/protocol/openid-connect/token'';
                    params = [(''grant_type'', ''authorization_code''),
                              (''client_id'', clientId cfg),
                              (''client_secret'', clientSecret cfg),
                              (''code'', code),
                              (''redirect_uri'', redirectUri cfg)];
                    c3 = emit (AxiosPost tokenEndpoint params) c2
                in case axios_settle (token_reply env) of
                     Inl error \<Rightarrow> callback_failed error c3
                   | Inr data \<Rightarrow>
                       (let c4 = addLog (party_popper @ '' Tokens received successfully!'') Success c3
                        in if data = JNull then
                             callback_failed
                               \<lparr>err_message = ''Cannot read properties of null (reading '' @
                                               [CHR 0x27] @ ''id_token'' @ [CHR 0x27] @ '')'',
                                err_response = None\<rparr> c4
                           else
                             (let (r, c5) = new_UserSession
                                              \<lparr>idToken = js_member data ''id_token'',
                                               accessToken = js_member data ''access_token'',
                                               refreshToken = js_member data ''refresh_token'',
                                               userInfo = None,
                                               isAuthenticated = True\<rparr> c4;
                                  c6 = sessions_set sessionId r c5;
                                  c7 = callback_userinfo cfg (userinfo_reply env)
                                         (js_member data ''access_token'') r c6;
                                  c8 = addLog (check_mark @
                                               '' Authentication completed! Redirecting to main page...'')
                                         Success c7;
                                  c9 = res_setHeader ''Set-Cookie''
                                         (''sessionId='' @ sessionId @
                                          ''; HttpOnly; Path=/; Max-Age=86400'') c8
                              in res_redirect ''/?auth=success'' c9))))"

text \<open>
  \<^verbatim>\<open>GET /logout\<close>, lines 476 to 499. The last part of the logout URL (line 489) is
  built, or throws, before the session is deleted.
\<close>

definition logout_inactive :: "ctx \<Rightarrow> ctx" where
  "logout_inactive c =
     res_redirect ''/logout-success''
       (addLog (warning_sign @ '' Logout attempt without active session'') Warning c)"

definition id_token_hint :: "json option \<Rightarrow> js_error + string" where
  "id_token_hint token =
     (if js_truthy token then
        (case js_template token of
           Inl thrown \<Rightarrow> Inl thrown
         | Inr printed \<Rightarrow> Inr (''&id_token_hint='' @ printed))
      else Inr [])"

definition logout :: "keycloakConfig \<Rightarrow> request \<Rightarrow> server_state \<Rightarrow> ctx" where
  "logout cfg req st =
     (let c0 = new_ctx st;
          sessionId = getSessionId req
      in case sessions_get st sessionId of
           None \<Rightarrow> logout_inactive c0
         | Some userSession \<Rightarrow>
             if \<not> isAuthenticated userSession then logout_inactive c0
             else
               (case id_token_hint (idToken userSession) of
                  Inl thrown \<Rightarrow> errorMiddleware thrown c0
                | Inr hint \<Rightarrow>
                    (let logoutUrl =
                           endpoint cfg @ ''/protocol/openid-connect/logout?'' @
                           ''client_id='' @ clientId cfg @ ''&'' @
                           ''post_logout_redirect_uri='' @
                           encodeURIComponent (logoutRedirectUri cfg) @
                           hint;
                         c1 = addLog (door_sign @ '' Redirecting to Keycloak for logout...'') Info c0;
                         c2 = sessions_delete sessionId c1;
                         c3 = res_setHeader ''Set-Cookie''
                                ''sessionId=; HttpOnly; Path=/; Max-Age=0'' c2
                     in res_redirect logoutUrl c3)))"

text \<open>The four legs, and a run of the server over a sequence of requests.\<close>

datatype leg = Login | Callback callback_env | Status | Logout

fun handle :: "keycloakConfig \<Rightarrow> leg \<Rightarrow> request \<Rightarrow> server_state \<Rightarrow> ctx" where
  "handle cfg Login req st = login cfg req st"
| "handle cfg (Callback env) req st = callback cfg env req st"
| "handle cfg Status req st = status req st"
| "handle cfg Logout req st = logout cfg req st"

fun run :: "keycloakConfig \<Rightarrow> (leg \<times> request) list \<Rightarrow> server_state \<Rightarrow> server_state" where
  "run cfg [] st = st"
| "run cfg ((l, req) # rest) st = run cfg rest (state (handle cfg l req st))"

section \<open>Notions the claims are stated with\<close>

text \<open>
  A call to the provider fails when there is no reply (a transport error) or the reply's
  status is not 2xx.
\<close>

definition call_fails :: "http_outcome \<Rightarrow> bool" where
  "call_fails outcome =
     (case outcome of
        NetworkError msg \<Rightarrow> True
      | HttpResponse code data \<Rightarrow> \<not> validateStatus code)"

text \<open>The session identifier the callback handler works with (lines 386 to 391).\<close>

definition resolved_id :: "callback_env \<Rightarrow> request \<Rightarrow> string" where
  "resolved_id env req =
     (if getSessionId req = ''default'' then generated_id env else getSessionId req)"

text \<open>The session object built from the members of a token reply's body.\<close>

definition session_of :: "json \<Rightarrow> UserSession" where
  "session_of data =
     \<lparr>idToken = js_member data ''id_token'',
      accessToken = js_member data ''access_token'',
      refreshToken = js_member data ''refresh_token'',
      userInfo = None,
      isAuthenticated = True\<rparr>"

text \<open>
  The body of a userinfo call that is made and succeeds. The call is made when the
  access token can be converted to a string for the \<^verbatim>\<open>Authorization\<close> header.
\<close>

definition fetched_userInfo :: "json option \<Rightarrow> http_outcome \<Rightarrow> json option" where
  "fetched_userInfo access_token outcome =
     (case js_template access_token of
        Inl thrown \<Rightarrow> None
      | Inr bearer \<Rightarrow>
          (case axios_settle outcome of
             Inl userInfoError \<Rightarrow> None
           | Inr data \<Rightarrow> Some data))"

text \<open>The events of the userinfo step for the session object at address \<open>r\<close>.\<close>

definition userinfo_events :: "keycloakConfig \<Rightarrow> json option \<Rightarrow> http_outcome \<Rightarrow> nat \<Rightarrow> event list" where
  "userinfo_events cfg access_token outcome r =
     (case js_template access_token of
        Inl thrown \<Rightarrow> []
      | Inr bearer \<Rightarrow>
          AxiosGet (endpoint cfg @ ''/protocol/openid-connect/userinfo'')
            [(''Authorization'', ''Bearer '' @ bearer)]
          # (case fetched_userInfo access_token outcome of
               None \<Rightarrow> []
             | Some data \<Rightarrow> [UserInfoAssigned r data]))"

text \<open>The calls to the provider among the events of a request.\<close>

fun outbound :: "event \<Rightarrow> bool" where
  "outbound (AxiosPost url params) = True"
| "outbound (AxiosGet url hdrs) = True"
| "outbound e = False"

text \<open>A stored, authenticated session under an identifier.\<close>

definition session_active :: "server_state \<Rightarrow> string \<Rightarrow> bool" where
  "session_active st sessionId =
     (case sessions_get st sessionId of
        None \<Rightarrow> False
      | Some s \<Rightarrow> isAuthenticated s)"

text \<open>The response clears the session cookie: same name, empty value, max-age 0.\<close>

definition clears_cookie :: "response \<Rightarrow> bool" where
  "clears_cookie r =
     (map_of (headers r) ''Set-Cookie'' = Some ''sessionId=; HttpOnly; Path=/; Max-Age=0'')"

text \<open>
  A property of every session object that the map refers to. A token field counts as
  populated when it passes the truth test the source itself applies to it.
\<close>

definition all_sessions :: "(UserSession \<Rightarrow> bool) \<Rightarrow> server_state \<Rightarrow> bool" where
  "all_sessions P st =
     list_all (\<lambda>(sessionId, r). case heap st r of None \<Rightarrow> True | Some s \<Rightarrow> P s) (sessions st)"

definition tokens_populated :: "UserSession \<Rightarrow> bool" where
  "tokens_populated s = (js_truthy (idToken s) \<and> js_truthy (accessToken s))"

text \<open>A request whose token reply, if it is a 2xx reply, carries both tokens.\<close>

fun carries_tokens :: "leg \<times> request \<Rightarrow> bool" where
  "carries_tokens (Callback env, req) =
     (case token_reply env of
        NetworkError msg \<Rightarrow> True
      | HttpResponse code data \<Rightarrow>
          if validateStatus code
          then js_truthy (js_member data ''id_token'') \<and> js_truthy (js_member data ''access_token'')
          else True)"
| "carries_tokens (l, req) = True"

text \<open>
  Inputs for worked examples: the callback of the specification's first scenario
  (\<^verbatim>\<open>GET /callback?code=abc\<close>, a token reply with the three tokens, a userinfo reply
  naming \<^verbatim>\<open>joao\<close>), a request with no cookie, header or code, and a request that sends
  the session cookie back.
\<close>

definition scenario_request :: request where
  "scenario_request = \<lparr>cookie = None, authorization = None, query_code = Some ''abc''\<rparr>"

definition scenario_env :: callback_env where
  "scenario_env =
     \<lparr>generated_id = ''k3x9'',
      token_reply = HttpResponse 200 (JObj [(''access_token'', JStr ''AT''),
                                            (''id_token'', JStr ''IT''),
                                            (''refresh_token'', JStr ''RT'')]),
      userinfo_reply = HttpResponse 200 (JObj [(''preferred_username'', JStr ''joao'')])\<rparr>"

definition bare_request :: request where
  "bare_request = \<lparr>cookie = None, authorization = None, query_code = None\<rparr>"

definition cookie_request :: request where
  "cookie_request = \<lparr>cookie = Some ''sessionId=k3x9'', authorization = None, query_code = None\<rparr>"

text \<open>
  The specification's fourth scenario: \<^verbatim>\<open>GET /logout\<close> with the cookie \<^verbatim>\<open>sessionId=S\<close>
  when the store holds an authenticated session with the id token \<^verbatim>\<open>IT\<close> under \<^verbatim>\<open>S\<close>.
\<close>

definition logout_scenario_state :: server_state where
  "logout_scenario_state =
     \<lparr>sessions = [(''S'', 0)],
      heap = (\<lambda>r. if r = 0
                  then Some \<lparr>idToken = Some (JStr ''IT''), accessToken = None, refreshToken = None,
                             userInfo = None, isAuthenticated = True\<rparr>
                  else None),
      allocated = 1,
      logs = []\<rparr>"

definition logout_scenario_request :: request where
  "logout_scenario_request = \<lparr>cookie = Some ''sessionId=S'', authorization = None, query_code = None\<rparr>"

text \<open>
  A callback whose token reply has no \<^verbatim>\<open>id_token\<close> (the provider gives none when the
  configured scope lacks \<^verbatim>\<open>openid\<close>), and a request that names its session by a Basic
  \<^verbatim>\<open>Authorization\<close> header.
\<close>

definition no_id_token_env :: callback_env where
  "no_id_token_env =
     \<lparr>generated_id = ''k3x9'',
      token_reply = HttpResponse 200 (JObj [(''access_token'', JStr ''AT'')]),
      userinfo_reply = NetworkError ''timeout''\<rparr>"

definition basic_auth_request :: request where
  "basic_auth_request =
     \<lparr>cookie = None, authorization = Some ''Basic dXNlcjpwdw=='', query_code = Some ''abc''\<rparr>"

text \<open>
  Replies with a member named \<^verbatim>\<open>toString\<close>: a callback whose token reply carries the id
  token \<^verbatim>\<open>{"toString": 1}\<close> and whose userinfo reply carries such a user name, and a
  token reply 400 with such a body.
\<close>

definition toString_object :: json where
  "toString_object = JObj [(''toString'', JNum ''1'')]"

definition toString_env :: callback_env where
  "toString_env =
     \<lparr>generated_id = ''k3x9'',
      token_reply = HttpResponse 200 (JObj [(''access_token'', JStr ''AT''),
                                            (''id_token'', toString_object)]),
      userinfo_reply = HttpResponse 200 (JObj [(''preferred_username'', toString_object)])\<rparr>"


section \<open>Effects of the primitive steps\<close>

lemma split_ne: "split sep s \<noteq> []"
  by (induction s) (auto split: list.splits)

lemma emit_proj:
  "state (emit e c) = state c" "res (emit e c) = res c" "trace (emit e c) = trace c @ [e]"
  "rejected (emit e c) = rejected c"
  by (simp_all add: emit_def)

lemma addLog_proj:
  "res (addLog m t c) = res c" "trace (addLog m t c) = trace c"
  "rejected (addLog m t c) = rejected c"
  "sessions (state (addLog m t c)) = sessions (state c)"
  "heap (state (addLog m t c)) = heap (state c)"
  "allocated (state (addLog m t c)) = allocated (state c)"
  by (simp_all add: addLog_def Let_def)

lemma res_redirect_proj:
  "state (res_redirect url c) = state c"
  "rejected (res_redirect url c) = rejected c"
  "trace (res_redirect url c) = trace c @ [Redirect url]"
  "statusCode (res (res_redirect url c)) = 302"
  "location (res (res_redirect url c)) = Some url"
  "headers (res (res_redirect url c)) = headers (res c)"
  "body (res (res_redirect url c)) = body (res c)"
  by (simp_all add: res_redirect_def emit_def)

lemma res_setHeader_proj:
  "state (res_setHeader n v c) = state c"
  "rejected (res_setHeader n v c) = rejected c"
  "trace (res_setHeader n v c) = trace c @ [SetHeader n v]"
  "statusCode (res (res_setHeader n v c)) = statusCode (res c)"
  "location (res (res_setHeader n v c)) = location (res c)"
  "headers (res (res_setHeader n v c)) = AList.update n v (headers (res c))"
  by (simp_all add: res_setHeader_def emit_def)

lemma res_json_proj:
  "state (res_json p c) = state c"
  "rejected (res_json p c) = rejected c"
  "trace (res_json p c) = trace c @ [Json p]"
  "statusCode (res (res_json p c)) = statusCode (res c)"
  "headers (res (res_json p c)) = headers (res c)"
  "location (res (res_json p c)) = location (res c)"
  "body (res (res_json p c)) = Some p"
  by (simp_all add: res_json_def emit_def)

lemma sessions_set_proj:
  "res (sessions_set k r c) = res c"
  "rejected (sessions_set k r c) = rejected c"
  "trace (sessions_set k r c) = trace c @ [SessionsSet k r]"
  "sessions (state (sessions_set k r c)) = AList.update k r (sessions (state c))"
  "heap (state (sessions_set k r c)) = heap (state c)"
  "allocated (state (sessions_set k r c)) = allocated (state c)"
  by (simp_all add: sessions_set_def emit_def)

lemma sessions_delete_proj:
  "res (sessions_delete k c) = res c"
  "rejected (sessions_delete k c) = rejected c"
  "trace (sessions_delete k c) = trace c @ [SessionsDelete k]"
  "sessions (state (sessions_delete k c)) = AList.delete k (sessions (state c))"
  "heap (state (sessions_delete k c)) = heap (state c)"
  "allocated (state (sessions_delete k c)) = allocated (state c)"
  by (simp_all add: sessions_delete_def emit_def)

lemma assign_userInfo_proj:
  "res (assign_userInfo r v c) = res c"
  "rejected (assign_userInfo r v c) = rejected c"
  "trace (assign_userInfo r v c) = trace c @ [UserInfoAssigned r v]"
  "sessions (state (assign_userInfo r v c)) = sessions (state c)"
  "heap (state (assign_userInfo r v c)) a =
     (if a = r then map_option (\<lambda>s. s\<lparr>userInfo := Some v\<rparr>) (heap (state c) r) else heap (state c) a)"
  "allocated (state (assign_userInfo r v c)) = allocated (state c)"
  by (simp_all add: assign_userInfo_def emit_def)

lemma new_UserSession_proj:
  "fst (new_UserSession s c) = allocated (state c)"
  "res (snd (new_UserSession s c)) = res c"
  "rejected (snd (new_UserSession s c)) = rejected c"
  "trace (snd (new_UserSession s c)) = trace c @ [Allocated (allocated (state c)) s]"
  "sessions (state (snd (new_UserSession s c))) = sessions (state c)"
  "heap (state (snd (new_UserSession s c))) = (heap (state c))(allocated (state c) \<mapsto> s)"
  "allocated (state (snd (new_UserSession s c))) = Suc (allocated (state c))"
  by (simp_all add: new_UserSession_def emit_def Let_def)

lemma res_status_proj:
  "state (res_status code c) = state c"
  "rejected (res_status code c) = rejected c"
  "trace (res_status code c) = trace c"
  "statusCode (res (res_status code c)) = code"
  "headers (res (res_status code c)) = headers (res c)"
  "location (res (res_status code c)) = location (res c)"
  "body (res (res_status code c)) = body (res c)"
  by (simp_all add: res_status_def)

lemma new_ctx_proj:
  "state (new_ctx st) = st" "trace (new_ctx st) = []" "rejected (new_ctx st) = None"
  "statusCode (res (new_ctx st)) = 200" "headers (res (new_ctx st)) = []"
  "location (res (new_ctx st)) = None" "body (res (new_ctx st)) = None"
  by (simp_all add: new_ctx_def)

lemmas proj = emit_proj addLog_proj res_redirect_proj res_setHeader_proj res_json_proj
  res_status_proj
  sessions_set_proj sessions_delete_proj assign_userInfo_proj new_UserSession_proj new_ctx_proj

text \<open>The error handler answers 500 with its payload and leaves the store alone.\<close>

lemma errorMiddleware_proj:
  "res (errorMiddleware e (new_ctx st)) =
     \<lparr>statusCode = 500, headers = [], location = None,
      body = Some (ErrorBody \<lparr>p_error = ''Internal server error'', p_message = error_message e\<rparr>)\<rparr>"
  "trace (errorMiddleware e (new_ctx st)) =
     [Json (ErrorBody \<lparr>p_error = ''Internal server error'', p_message = error_message e\<rparr>)]"
  "sessions (state (errorMiddleware e (new_ctx st))) = sessions st"
  "heap (state (errorMiddleware e (new_ctx st))) = heap st"
  "rejected (errorMiddleware e (new_ctx st)) = None"
  by (simp_all add: errorMiddleware_def res_json_def res_status_def emit_def new_ctx_def addLog_proj)

section \<open>Session identifier resolution: what the code returns\<close>

lemma split_hd: "split sep s = takeWhile (\<lambda>c. c \<noteq> sep) s # tl (split sep s)"
  by (induction s) (auto split: list.splits simp: split_ne)

lemma split_prefix: "sep \<notin> set p \<Longrightarrow> split sep (p @ sep # r) = p # split sep r"
  by (induction p) auto

text \<open>
  The cookie that \<^verbatim>\<open>find\<close> returns starts with \<^verbatim>\<open>sessionId=\<close>, so its split at the
  equals signs has an element 1: the text between the first equals sign and the next.
\<close>

lemma split_sessionCookie:
  assumes "startsWith c ''sessionId=''"
  shows "1 < length (split CHR ''='' c)"
    and "split CHR ''='' c ! 1 = takeWhile (\<lambda>x. x \<noteq> CHR ''='') (drop 10 c)"
proof -
  have len: "length ''sessionId='' = 10"
    by simp
  have "take 10 c = ''sessionId=''"
    using assms by (simp only: startsWith_def len)
  then have "c = ''sessionId='' @ drop 10 c"
    by (metis append_take_drop_id)
  then have c: "c = ''sessionId'' @ CHR ''='' # drop 10 c"
    by simp
  have "split CHR ''='' (''sessionId'' @ CHR ''='' # drop 10 c)
          = ''sessionId'' # split CHR ''='' (drop 10 c)"
    by (rule split_prefix) simp
  with c have s: "split CHR ''='' c = ''sessionId'' # split CHR ''='' (drop 10 c)"
    by simp
  show "1 < length (split CHR ''='' c)"
    using split_ne [of "CHR ''=''" "drop 10 c"]
    by (cases "split CHR ''='' (drop 10 c)") (simp_all add: s)
  show "split CHR ''='' c ! 1 = takeWhile (\<lambda>x. x \<noteq> CHR ''='') (drop 10 c)"
    using split_hd [of "CHR ''=''" "drop 10 c"] by (simp add: s) (metis nth_Cons_0)
qed

lemma startsWith_nonempty: "startsWith c ''sessionId='' \<Longrightarrow> c \<noteq> []"
  by (auto simp add: startsWith_def)

lemma getSessionId_cookie:
  assumes "cookie req = Some h"
    and "find (\<lambda>c. startsWith c ''sessionId='') (map trim (split CHR '';'' h)) = Some sc"
  shows "getSessionId req = takeWhile (\<lambda>x. x \<noteq> CHR ''='') (drop 10 sc)"
proof -
  from assms(2) have sw: "startsWith sc ''sessionId=''"
    by (auto simp add: find_Some_iff)
  have "h \<noteq> []"
  proof
    assume "h = []"
    with assms(2) show False
      by (simp add: trim_def startsWith_def split: if_splits)
  qed
  with assms sw split_sessionCookie(2) [OF sw] show ?thesis
    by (simp add: getSessionId_def Let_def startsWith_nonempty)
qed

lemma getSessionId_no_cookie:
  assumes "spec_sessionCookie req = None"
  shows "getSessionId req =
           (case authorization req of
              None \<Rightarrow> ''default''
            | Some a \<Rightarrow> if a \<noteq> [] then a else ''default'')"
  using assms
  by (auto simp add: getSessionId_def spec_sessionCookie_def Let_def split: option.splits)

text \<open>
  Where the value of the session cookie holds no equals sign, or there is no session
  cookie, the code returns what the specification's precedence returns; in particular
  \<^verbatim>\<open>default\<close> for a request with neither cookie nor header.
\<close>

lemma getSessionId_agrees_with_spec:
  assumes "\<And>v. spec_sessionCookie req = Some v \<Longrightarrow> CHR ''='' \<notin> set v"
  shows "getSessionId req = spec_resolveSessionId req"
proof (cases "spec_sessionCookie req")
  case None
  then show ?thesis
    by (simp add: getSessionId_no_cookie spec_resolveSessionId_def split: option.splits)
next
  case (Some v)
  then obtain h sc where h: "cookie req = Some h"
    and f: "find (\<lambda>c. startsWith c ''sessionId='') (map trim (split CHR '';'' h)) = Some sc"
    and v0: "v = drop (length ''sessionId='') sc"
    by (auto simp add: spec_sessionCookie_def split: option.splits)
  have len: "length ''sessionId='' = 10"
    by simp
  from v0 have v: "v = drop 10 sc"
    by (simp only: len)
  from assms [OF Some] v have "takeWhile (\<lambda>x. x \<noteq> CHR ''='') (drop 10 sc) = drop 10 sc"
    by auto
  with getSessionId_cookie [OF h f] Some v show ?thesis
    by (simp add: spec_resolveSessionId_def)
qed

lemma getSessionId_default:
  "cookie req = None \<Longrightarrow> authorization req = None \<Longrightarrow> getSessionId req = ''default''"
  by (simp add: getSessionId_def)

text \<open>
  Claim C7. Session identifier resolution returns the value of the cookie named
  \<^verbatim>\<open>sessionId\<close> verbatim if there is one, else the \<^verbatim>\<open>Authorization\<close> header verbatim,
  else \<^verbatim>\<open>default\<close>. The code does not: for the header \<^verbatim>\<open>Cookie: sessionId=a=b\<close> it
  returns \<^verbatim>\<open>a\<close>, where the cookie's value, and the specification's result, is \<^verbatim>\<open>a=b\<close>.
\<close>

theorem getSessionId_truncates_cookie_value:
  "getSessionId \<lparr>cookie = Some ''sessionId=a=b'', authorization = None, query_code = None\<rparr> = ''a''
   \<and> spec_resolveSessionId \<lparr>cookie = Some ''sessionId=a=b'', authorization = None, query_code = None\<rparr>
       = ''a=b''"
  by (simp add: getSessionId_def spec_resolveSessionId_def spec_sessionCookie_def
        trim_def startsWith_def js_whitespace_def)


section \<open>The callback handler\<close>

lemma callback_failed_proj:
  "sessions (state (callback_failed e c)) = sessions (state c)"
  "heap (state (callback_failed e c)) = heap (state c)"
  "allocated (state (callback_failed e c)) = allocated (state c)"
  "headers (res (callback_failed e c)) = headers (res c)"
  "body (res (callback_failed e c)) = body (res c)"
  by (simp_all add: callback_failed_def proj split: sum.splits)


lemma callback_failed_thrown:
  assumes "js_template (errorMsg e) = Inl thrown"
  shows "res (callback_failed e c) = res c"
    and "trace (callback_failed e c) = trace c"
    and "rejected (callback_failed e c) = Some thrown"
  using assms by (simp_all add: callback_failed_def)

lemma callback_userinfo_proj:
  "res (callback_userinfo cfg reply tok r c) = res c"
  "rejected (callback_userinfo cfg reply tok r c) = rejected c"
  "sessions (state (callback_userinfo cfg reply tok r c)) = sessions (state c)"
  "allocated (state (callback_userinfo cfg reply tok r c)) = allocated (state c)"
  "trace (callback_userinfo cfg reply tok r c) = trace c @ userinfo_events cfg tok reply r"
  "heap (state (callback_userinfo cfg reply tok r c)) a =
     (case fetched_userInfo tok reply of
        None \<Rightarrow> heap (state c) a
      | Some d \<Rightarrow> if a = r then map_option (\<lambda>s. s\<lparr>userInfo := Some d\<rparr>) (heap (state c) r)
                  else heap (state c) a)"
  by (simp_all add: callback_userinfo_def fetched_userInfo_def userinfo_events_def Let_def proj
        split: sum.splits)

text \<open>
  No session is written when the code is missing or empty, when the token call fails,
  and when a 2xx token reply has the body \<^verbatim>\<open>null\<close>.
\<close>

lemma callback_unchanged:
  assumes "query_code req = None \<or> query_code req = Some []
           \<or> call_fails (token_reply env) \<or> (\<exists>sc. token_reply env = HttpResponse sc JNull)"
  shows "sessions (state (callback cfg env req st)) = sessions st"
    and "heap (state (callback cfg env req st)) = heap st"
  using assms
  by (cases "query_code req"; cases "token_reply env";
      auto simp add: callback_def callback_no_code_def call_fails_def axios_settle_def Let_def
        proj callback_failed_proj)+

text \<open>The whole effect of a callback whose token call brings a body that is not \<^verbatim>\<open>null\<close>.\<close>

lemma callback_token_ok:
  assumes "query_code req = Some code" and "code \<noteq> []"
    and "token_reply env = HttpResponse sc data" and "validateStatus sc" and "data \<noteq> JNull"
  shows "res (callback cfg env req st) =
           \<lparr>statusCode = 302,
            headers = [(''Set-Cookie'',
                        ''sessionId='' @ resolved_id env req @ ''; HttpOnly; Path=/; Max-Age=86400'')],
            location = Some ''/?auth=success'', body = None\<rparr>"
    and "sessions (state (callback cfg env req st)) =
           AList.update (resolved_id env req) (allocated st) (sessions st)"
    and "heap (state (callback cfg env req st)) =
           (heap st)(allocated st \<mapsto>
              session_of data\<lparr>userInfo := fetched_userInfo (js_member data ''access_token'')
                                             (userinfo_reply env)\<rparr>)"
    and "trace (callback cfg env req st) =
           [AxiosPost (endpoint cfg @ ''/protocol/openid-connect/token'')
              [(''grant_type'', ''authorization_code''), (''client_id'', clientId cfg),
               (''client_secret'', clientSecret cfg), (''code'', code),
               (''redirect_uri'', redirectUri cfg)],
            Allocated (allocated st) (session_of data),
            SessionsSet (resolved_id env req) (allocated st)]
           @ userinfo_events cfg (js_member data ''access_token'') (userinfo_reply env) (allocated st)
           @ [SetHeader ''Set-Cookie''
                (''sessionId='' @ resolved_id env req @ ''; HttpOnly; Path=/; Max-Age=86400''),
              Redirect ''/?auth=success'']"
    and "rejected (callback cfg env req st) = None"
proof -
  show "res (callback cfg env req st) =
           \<lparr>statusCode = 302,
            headers = [(''Set-Cookie'',
                        ''sessionId='' @ resolved_id env req @ ''; HttpOnly; Path=/; Max-Age=86400'')],
            location = Some ''/?auth=success'', body = None\<rparr>"
    using assms
    by (simp add: callback_def axios_settle_def Let_def resolved_id_def new_UserSession_def
          res_redirect_def res_setHeader_def emit_def callback_userinfo_proj addLog_proj
          sessions_set_proj new_ctx_def)
  show "sessions (state (callback cfg env req st)) =
           AList.update (resolved_id env req) (allocated st) (sessions st)"
    using assms
    by (simp add: callback_def axios_settle_def Let_def resolved_id_def split_def proj
          callback_userinfo_proj)
  show "heap (state (callback cfg env req st)) =
           (heap st)(allocated st \<mapsto>
              session_of data\<lparr>userInfo := fetched_userInfo (js_member data ''access_token'')
                                             (userinfo_reply env)\<rparr>)"
    using assms
    by (auto simp add: callback_def axios_settle_def Let_def session_of_def split_def proj
          callback_userinfo_proj fun_eq_iff split: option.splits)
  show "trace (callback cfg env req st) =
           [AxiosPost (endpoint cfg @ ''/protocol/openid-connect/token'')
              [(''grant_type'', ''authorization_code''), (''client_id'', clientId cfg),
               (''client_secret'', clientSecret cfg), (''code'', code),
               (''redirect_uri'', redirectUri cfg)],
            Allocated (allocated st) (session_of data),
            SessionsSet (resolved_id env req) (allocated st)]
           @ userinfo_events cfg (js_member data ''access_token'') (userinfo_reply env) (allocated st)
           @ [SetHeader ''Set-Cookie''
                (''sessionId='' @ resolved_id env req @ ''; HttpOnly; Path=/; Max-Age=86400''),
              Redirect ''/?auth=success'']"
    using assms
    by (simp add: callback_def axios_settle_def Let_def resolved_id_def session_of_def split_def
          proj callback_userinfo_proj)
  show "rejected (callback cfg env req st) = None"
    using assms
    by (simp add: callback_def axios_settle_def Let_def split_def proj callback_userinfo_proj)
qed

lemma callback_stored_session:
  assumes "query_code req = Some code" and "code \<noteq> []"
    and "token_reply env = HttpResponse sc data" and "validateStatus sc" and "data \<noteq> JNull"
  shows "sessions_get (state (callback cfg env req st)) (resolved_id env req) =
           Some (session_of data\<lparr>userInfo := fetched_userInfo (js_member data ''access_token'')
                                                (userinfo_reply env)\<rparr>)"
  using callback_token_ok(2,3) [OF assms, of cfg st]
  by (simp add: sessions_get_def update_conv')

lemma fetched_userInfo_fails: "call_fails outcome \<Longrightarrow> fetched_userInfo tok outcome = None"
  by (cases outcome)
     (simp_all add: call_fails_def fetched_userInfo_def axios_settle_def split: sum.splits)

text \<open>
  What the handler does with a 2xx token reply whose body is \<^verbatim>\<open>null\<close>: it answers as
  for a failed exchange, and makes no call to the userinfo endpoint.
\<close>

lemma callback_null_body:
  assumes "query_code req = Some code" and "code \<noteq> []"
    and "token_reply env = HttpResponse sc JNull" and "validateStatus sc"
  shows "res (callback cfg env req st) =
           \<lparr>statusCode = 302, headers = [], location = Some ''/?error=auth_failed'', body = None\<rparr>"
    and "trace (callback cfg env req st) =
           [AxiosPost (endpoint cfg @ ''/protocol/openid-connect/token'')
              [(''grant_type'', ''authorization_code''), (''client_id'', clientId cfg),
               (''client_secret'', clientSecret cfg), (''code'', code),
               (''redirect_uri'', redirectUri cfg)],
            Redirect ''/?error=auth_failed'']"
  using assms
  by (simp_all add: callback_def axios_settle_def Let_def callback_failed_def errorMsg_def
        js_member_opt_def js_or_def js_template_def new_ctx_def res_redirect_def emit_def
        addLog_proj)



text \<open>
  Claim C3. A callback request (Leg B) whose query string has no \<^verbatim>\<open>code\<close> parameter is
  answered with a redirect (302) to \<^verbatim>\<open>/?error=no_auth_code\<close>, and the session store is
  unchanged: the map has the same entries and every session object is as it was.
\<close>

theorem callback_without_code:
  assumes "query_code req = None"
  shows "statusCode (res (callback cfg env req st)) = 302
    \<and> location (res (callback cfg env req st)) = Some ''/?error=no_auth_code''
    \<and> sessions (state (callback cfg env req st)) = sessions st
    \<and> heap (state (callback cfg env req st)) = heap st"
  using assms by (simp add: callback_def callback_no_code_def Let_def proj)

theorem callback_without_code_witness:
  "query_code bare_request = None
   \<and> statusCode (res (callback default_config scenario_env bare_request initial_state)) = 302
   \<and> location (res (callback default_config scenario_env bare_request initial_state))
       = Some ''/?error=no_auth_code''
   \<and> sessions (state (callback default_config scenario_env bare_request initial_state)) = []"
  using callback_without_code [of bare_request default_config scenario_env initial_state]
  by (simp add: bare_request_def initial_state_def)




text \<open>
  Claim C1, as stated: whenever a callback request (Leg B) carries an authorization code
  and the token-endpoint call succeeds, a session is stored and the response redirects
  to \<^verbatim>\<open>/?auth=success\<close>. It fails for a call that succeeds with the body \<^verbatim>\<open>null\<close>:
  reading \<^verbatim>\<open>tokenResponse.data.id_token\<close> throws inside the \<^verbatim>\<open>try\<close>, the response
  redirects to \<^verbatim>\<open>/?error=auth_failed\<close> and nothing is stored.
\<close>

theorem callback_null_body_counterexample:
  "query_code scenario_request = Some ''abc''
   \<and> \<not> call_fails (token_reply (scenario_env\<lparr>token_reply := HttpResponse 200 JNull\<rparr>))
   \<and> location (res (callback default_config (scenario_env\<lparr>token_reply := HttpResponse 200 JNull\<rparr>)
                       scenario_request initial_state)) = Some ''/?error=auth_failed''
   \<and> sessions (state (callback default_config (scenario_env\<lparr>token_reply := HttpResponse 200 JNull\<rparr>)
                         scenario_request initial_state)) = []"
proof -
  have q: "query_code scenario_request = Some ''abc''" and ne: "''abc'' \<noteq> []"
    by (simp_all add: scenario_request_def)
  have t: "token_reply (scenario_env\<lparr>token_reply := HttpResponse 200 JNull\<rparr>) = HttpResponse 200 JNull"
    by simp
  have v: "validateStatus 200"
    by (simp add: validateStatus_def)
  have "sessions (state (callback default_config (scenario_env\<lparr>token_reply := HttpResponse 200 JNull\<rparr>)
                           scenario_request initial_state)) = sessions initial_state"
    by (rule callback_unchanged) (simp add: t)
  with callback_null_body(1) [OF q ne t v, of default_config initial_state] q v show ?thesis
    by (simp add: call_fails_def initial_state_def)
qed

text \<open>
  Claim C1, amended. A callback request (Leg B) carries a non-empty authorization code,
  and the token-endpoint call succeeds with a body other than \<^verbatim>\<open>null\<close>. Then the handler
  creates a session object with \<^verbatim>\<open>isAuthenticated = true\<close> and with \<^verbatim>\<open>idToken\<close>,
  \<^verbatim>\<open>accessToken\<close>, \<^verbatim>\<open>refreshToken\<close> the body's fields \<^verbatim>\<open>id_token\<close>, \<^verbatim>\<open>access_token\<close>,
  \<^verbatim>\<open>refresh_token\<close> as they are, and puts it into the map under the resolved session id
  before the userinfo step, in which alone the userinfo endpoint is called (the order of
  the events). The response sets the cookie \<^verbatim>\<open>sessionId\<close> to the resolved id and
  redirects (302) to \<^verbatim>\<open>/?auth=success\<close>. The session found under the resolved id
  afterwards has these tokens, and has the body of the userinfo reply as \<^verbatim>\<open>userInfo\<close> if
  that call was made and succeeded.
\<close>

theorem callback_success:
  assumes "query_code req = Some code" and "code \<noteq> []"
    and "token_reply env = HttpResponse sc data" and "validateStatus sc" and "data \<noteq> JNull"
  shows "trace (callback cfg env req st) =
           [AxiosPost (endpoint cfg @ ''/protocol/openid-connect/token'')
              [(''grant_type'', ''authorization_code''), (''client_id'', clientId cfg),
               (''client_secret'', clientSecret cfg), (''code'', code),
               (''redirect_uri'', redirectUri cfg)],
            Allocated (allocated st)
              \<lparr>idToken = js_member data ''id_token'',
               accessToken = js_member data ''access_token'',
               refreshToken = js_member data ''refresh_token'',
               userInfo = None,
               isAuthenticated = True\<rparr>,
            SessionsSet (resolved_id env req) (allocated st)]
           @ (case js_template (js_member data ''access_token'') of
                Inl thrown \<Rightarrow> []
              | Inr bearer \<Rightarrow>
                  AxiosGet (endpoint cfg @ ''/protocol/openid-connect/userinfo'')
                    [(''Authorization'', ''Bearer '' @ bearer)]
                  # (case fetched_userInfo (js_member data ''access_token'') (userinfo_reply env) of
                       None \<Rightarrow> []
                     | Some d \<Rightarrow> [UserInfoAssigned (allocated st) d]))
           @ [SetHeader ''Set-Cookie''
                (''sessionId='' @ resolved_id env req @ ''; HttpOnly; Path=/; Max-Age=86400''),
              Redirect ''/?auth=success'']
    \<and> sessions_get (state (callback cfg env req st)) (resolved_id env req) =
          Some \<lparr>idToken = js_member data ''id_token'',
                accessToken = js_member data ''access_token'',
                refreshToken = js_member data ''refresh_token'',
                userInfo = fetched_userInfo (js_member data ''access_token'') (userinfo_reply env),
                isAuthenticated = True\<rparr>
    \<and> map_of (headers (res (callback cfg env req st))) ''Set-Cookie'' =
          Some (''sessionId='' @ resolved_id env req @ ''; HttpOnly; Path=/; Max-Age=86400'')
    \<and> statusCode (res (callback cfg env req st)) = 302
    \<and> location (res (callback cfg env req st)) = Some ''/?auth=success''"
proof -
  note ok = callback_token_ok [OF assms, of cfg st]
  note stored = callback_stored_session [OF assms, of cfg st]
  from ok(4) stored ok(1) show ?thesis
    by (simp add: session_of_def userinfo_events_def)
qed

theorem callback_success_witness:
  "query_code scenario_request = Some ''abc'' \<and> ''abc'' \<noteq> []
   \<and> token_reply scenario_env =
        HttpResponse 200 (JObj [(''access_token'', JStr ''AT''), (''id_token'', JStr ''IT''),
                                (''refresh_token'', JStr ''RT'')])
   \<and> validateStatus 200
   \<and> JObj [(''access_token'', JStr ''AT''), (''id_token'', JStr ''IT''),
            (''refresh_token'', JStr ''RT'')] \<noteq> JNull
   \<and> sessions_get (state (callback default_config scenario_env scenario_request initial_state)) ''k3x9'' =
        Some \<lparr>idToken = Some (JStr ''IT''), accessToken = Some (JStr ''AT''),
              refreshToken = Some (JStr ''RT''),
              userInfo = Some (JObj [(''preferred_username'', JStr ''joao'')]),
              isAuthenticated = True\<rparr>
   \<and> map_of (headers (res (callback default_config scenario_env scenario_request initial_state)))
        ''Set-Cookie'' = Some ''sessionId=k3x9; HttpOnly; Path=/; Max-Age=86400''
   \<and> statusCode (res (callback default_config scenario_env scenario_request initial_state)) = 302
   \<and> location (res (callback default_config scenario_env scenario_request initial_state))
        = Some ''/?auth=success''"
  using callback_success [of scenario_request "''abc''" scenario_env 200
          "JObj [(''access_token'', JStr ''AT''), (''id_token'', JStr ''IT''),
                 (''refresh_token'', JStr ''RT'')]"
          default_config initial_state]
  by (simp add: scenario_request_def scenario_env_def validateStatus_def resolved_id_def
        getSessionId_def fetched_userInfo_def axios_settle_def js_template_def)

text \<open>
  Claim C5. A callback request (Leg B) carries a non-empty code, the token exchange
  succeeds and the handler goes on to the userinfo step (a 2xx reply with a body other
  than \<^verbatim>\<open>null\<close>: after the body \<^verbatim>\<open>null\<close> there is no userinfo step), and the userinfo
  call fails, by a transport error or by a reply that is not 2xx. Then the session
  stored under the resolved id has \<^verbatim>\<open>isAuthenticated = true\<close> and no \<^verbatim>\<open>userInfo\<close>, and
  the response still sets the session cookie and redirects (302) to \<^verbatim>\<open>/?auth=success\<close>.
\<close>

theorem callback_userinfo_fails:
  assumes "query_code req = Some code" and "code \<noteq> []"
    and "token_reply env = HttpResponse sc data" and "validateStatus sc" and "data \<noteq> JNull"
    and "call_fails (userinfo_reply env)"
  shows "sessions_get (state (callback cfg env req st)) (resolved_id env req) =
          Some \<lparr>idToken = js_member data ''id_token'',
                accessToken = js_member data ''access_token'',
                refreshToken = js_member data ''refresh_token'',
                userInfo = None,
                isAuthenticated = True\<rparr>
    \<and> map_of (headers (res (callback cfg env req st))) ''Set-Cookie'' =
          Some (''sessionId='' @ resolved_id env req @ ''; HttpOnly; Path=/; Max-Age=86400'')
    \<and> statusCode (res (callback cfg env req st)) = 302
    \<and> location (res (callback cfg env req st)) = Some ''/?auth=success''"
proof -
  note ok = callback_token_ok(1) [OF assms(1-5), of cfg st]
  note stored = callback_stored_session [OF assms(1-5), of cfg st]
  from stored ok fetched_userInfo_fails [OF assms(6)] show ?thesis
    by (simp add: session_of_def)
qed

theorem callback_userinfo_fails_witness:
  "query_code scenario_request = Some ''abc'' \<and> ''abc'' \<noteq> []
   \<and> token_reply (scenario_env\<lparr>userinfo_reply := HttpResponse 401 (JStr [])\<rparr>) =
        HttpResponse 200 (JObj [(''access_token'', JStr ''AT''), (''id_token'', JStr ''IT''),
                                (''refresh_token'', JStr ''RT'')])
   \<and> validateStatus 200
   \<and> JObj [(''access_token'', JStr ''AT''), (''id_token'', JStr ''IT''),
            (''refresh_token'', JStr ''RT'')] \<noteq> JNull
   \<and> call_fails (userinfo_reply (scenario_env\<lparr>userinfo_reply := HttpResponse 401 (JStr [])\<rparr>))
   \<and> sessions_get (state (callback default_config
                             (scenario_env\<lparr>userinfo_reply := HttpResponse 401 (JStr [])\<rparr>)
                             scenario_request initial_state)) ''k3x9'' =
        Some \<lparr>idToken = Some (JStr ''IT''), accessToken = Some (JStr ''AT''),
              refreshToken = Some (JStr ''RT''), userInfo = None, isAuthenticated = True\<rparr>
   \<and> map_of (headers (res (callback default_config
                             (scenario_env\<lparr>userinfo_reply := HttpResponse 401 (JStr [])\<rparr>)
                             scenario_request initial_state))) ''Set-Cookie''
        = Some ''sessionId=k3x9; HttpOnly; Path=/; Max-Age=86400''
   \<and> statusCode (res (callback default_config
                         (scenario_env\<lparr>userinfo_reply := HttpResponse 401 (JStr [])\<rparr>)
                         scenario_request initial_state)) = 302
   \<and> location (res (callback default_config
                       (scenario_env\<lparr>userinfo_reply := HttpResponse 401 (JStr [])\<rparr>)
                       scenario_request initial_state)) = Some ''/?auth=success''"
  using callback_userinfo_fails [of scenario_request "''abc''"
          "scenario_env\<lparr>userinfo_reply := HttpResponse 401 (JStr [])\<rparr>" 200
          "JObj [(''access_token'', JStr ''AT''), (''id_token'', JStr ''IT''),
                 (''refresh_token'', JStr ''RT'')]"
          default_config initial_state]
  by (simp add: scenario_request_def scenario_env_def validateStatus_def call_fails_def
        resolved_id_def getSessionId_def)


section \<open>The status and login handlers\<close>

lemma login_frame:
  "sessions (state (login cfg req st)) = sessions st"
  "heap (state (login cfg req st)) = heap st"
  by (simp_all add: login_def Let_def proj)

lemma status_frame:
  "sessions (state (status req st)) = sessions st"
  "heap (state (status req st)) = heap st"
  by (simp_all add: status_def Let_def proj errorMiddleware_proj split: sum.splits prod.splits)

lemma status_sent:
  assumes "user_status (session_or_anonymous st (getSessionId req)) = Inr (userStatus, info)"
  shows "res (status req st) =
           \<lparr>statusCode = 200, headers = [], location = None,
            body = Some (StatusBody \<lparr>p_server = green_circle @ '' Server Online'',
                                     p_user = userStatus,
                                     p_userInfo = info,
                                     p_sessions = sessions_size st,
                                     p_logs = length (logs st),
                                     p_sessionId = getSessionId req\<rparr>)\<rparr>"
    and "trace (status req st) =
           [Json (StatusBody \<lparr>p_server = green_circle @ '' Server Online'',
                              p_user = userStatus,
                              p_userInfo = info,
                              p_sessions = sessions_size st,
                              p_logs = length (logs st),
                              p_sessionId = getSessionId req\<rparr>)]"
  using assms
  by (simp_all add: status_def Let_def res_json_def emit_def new_ctx_def addLog_proj)

lemma status_thrown:
  assumes "user_status (session_or_anonymous st (getSessionId req)) = Inl thrown"
  shows "res (status req st) =
           \<lparr>statusCode = 500, headers = [], location = None,
            body = Some (ErrorBody \<lparr>p_error = ''Internal server error'',
                                    p_message = error_message thrown\<rparr>)\<rparr>"
    and "trace (status req st) =
           [Json (ErrorBody \<lparr>p_error = ''Internal server error'',
                             p_message = error_message thrown\<rparr>)]"
  using assms
  by (simp_all add: status_def Let_def errorMiddleware_proj)

text \<open>The store after the callback that brings the replies with \<^verbatim>\<open>toString\<close> members.\<close>

lemma toString_callback:
  "sessions_get (state (callback default_config toString_env scenario_request initial_state)) ''k3x9'' =
     Some \<lparr>idToken = Some toString_object, accessToken = Some (JStr ''AT''), refreshToken = None,
           userInfo = Some (JObj [(''preferred_username'', toString_object)]),
           isAuthenticated = True\<rparr>"
proof -
  have q: "query_code scenario_request = Some ''abc''" and ne: "''abc'' \<noteq> []"
    by (simp_all add: scenario_request_def)
  have t: "token_reply toString_env =
             HttpResponse 200 (JObj [(''access_token'', JStr ''AT''), (''id_token'', toString_object)])"
    by (simp add: toString_env_def)
  have v: "validateStatus 200"
    by (simp add: validateStatus_def)
  have nn: "JObj [(''access_token'', JStr ''AT''), (''id_token'', toString_object)] \<noteq> JNull"
    by simp
  have id: "resolved_id toString_env scenario_request = ''k3x9''"
    by (simp add: resolved_id_def getSessionId_def scenario_request_def toString_env_def)
  from callback_stored_session [OF q ne t v nn, of default_config initial_state] id
  show ?thesis
    by (simp add: session_of_def fetched_userInfo_def axios_settle_def validateStatus_def
          js_template_def toString_env_def)
qed

lemma cookie_request_id: "getSessionId cookie_request = ''k3x9''"
  by (simp add: cookie_request_def getSessionId_def trim_def startsWith_def js_whitespace_def)

text \<open>
  Claim C10, as stated: the status handler (Leg C) always responds with status 200. It
  fails once a callback has stored a userinfo body whose \<^verbatim>\<open>preferred_username\<close> is
  \<^verbatim>\<open>{"toString": 1}\<close>: the template literal of line 321 throws on that user name, and
  the error handler answers the status request with 500.
\<close>

theorem status_500_counterexample:
  "statusCode (res (status cookie_request
      (state (callback default_config toString_env scenario_request initial_state)))) = 500"
proof -
  have "user_status (session_or_anonymous
          (state (callback default_config toString_env scenario_request initial_state))
          (getSessionId cookie_request)) = Inl (TypeError ''Cannot convert object to primitive value'')"
    by (simp add: cookie_request_id session_or_anonymous_def toString_callback user_status_def
          js_or_def js_template_def toString_object_def)
  from status_thrown(1) [OF this] show ?thesis
    by simp
qed

text \<open>
  Claim C10, amended. The status handler (Leg C) never changes the session store:
  whatever the request and the state, the session map and the session objects after a
  status request are those before it, also after a second status request. It always
  sends a response: 200 with the status payload when the status text of lines 315 to
  326 can be built, and otherwise, when the stored user name cannot be converted to a
  string and line 321 throws, the 500 of the error handler.
\<close>

theorem status_is_pure_read:
  "sessions (state (status req st)) = sessions st
   \<and> heap (state (status req st)) = heap st
   \<and> sessions (state (status req' (state (status req st)))) = sessions st
   \<and> heap (state (status req' (state (status req st)))) = heap st
   \<and> (case user_status (session_or_anonymous st (getSessionId req)) of
         Inr (userStatus, info) \<Rightarrow>
           res (status req st) =
             \<lparr>statusCode = 200, headers = [], location = None,
              body = Some (StatusBody \<lparr>p_server = green_circle @ '' Server Online'',
                                       p_user = userStatus,
                                       p_userInfo = info,
                                       p_sessions = sessions_size st,
                                       p_logs = length (logs st),
                                       p_sessionId = getSessionId req\<rparr>)\<rparr>
       | Inl thrown \<Rightarrow>
           res (status req st) =
             \<lparr>statusCode = 500, headers = [], location = None,
              body = Some (ErrorBody \<lparr>p_error = ''Internal server error'',
                                      p_message = error_message thrown\<rparr>)\<rparr>)"
proof -
  have "case user_status (session_or_anonymous st (getSessionId req)) of
         Inr (userStatus, info) \<Rightarrow>
           res (status req st) =
             \<lparr>statusCode = 200, headers = [], location = None,
              body = Some (StatusBody \<lparr>p_server = green_circle @ '' Server Online'',
                                       p_user = userStatus,
                                       p_userInfo = info,
                                       p_sessions = sessions_size st,
                                       p_logs = length (logs st),
                                       p_sessionId = getSessionId req\<rparr>)\<rparr>
       | Inl thrown \<Rightarrow>
           res (status req st) =
             \<lparr>statusCode = 500, headers = [], location = None,
              body = Some (ErrorBody \<lparr>p_error = ''Internal server error'',
                                      p_message = error_message thrown\<rparr>)\<rparr>"
  proof (cases "user_status (session_or_anonymous st (getSessionId req))")
    case (Inl thrown)
    with status_thrown(1) [OF Inl] show ?thesis
      by simp
  next
    case (Inr p)
    obtain userStatus info where p: "p = (userStatus, info)"
      by (cases p)
    from Inr p status_sent(1) [of st req userStatus info] show ?thesis
      by simp
  qed
  then show ?thesis
    by (simp add: status_frame)
qed

theorem status_is_pure_read_witness:
  "sessions (state (status cookie_request
      (state (callback default_config scenario_env scenario_request initial_state))))
     = sessions (state (callback default_config scenario_env scenario_request initial_state))
   \<and> res (status cookie_request
        (state (callback default_config scenario_env scenario_request initial_state))) =
       \<lparr>statusCode = 200, headers = [], location = None,
        body = Some (StatusBody
                 \<lparr>p_server = green_circle @ '' Server Online'',
                  p_user = green_circle @ '' Authenticated (joao)'',
                  p_userInfo = JObj [(''preferred_username'', JStr ''joao'')],
                  p_sessions = sessions_size
                    (state (callback default_config scenario_env scenario_request initial_state)),
                  p_logs = length (logs
                    (state (callback default_config scenario_env scenario_request initial_state))),
                  p_sessionId = ''k3x9''\<rparr>)\<rparr>"
proof -
  let ?st = "state (callback default_config scenario_env scenario_request initial_state)"
  have q: "query_code scenario_request = Some ''abc''" and ne: "''abc'' \<noteq> []"
    by (simp_all add: scenario_request_def)
  have t: "token_reply scenario_env =
        HttpResponse 200 (JObj [(''access_token'', JStr ''AT''), (''id_token'', JStr ''IT''),
                                (''refresh_token'', JStr ''RT'')])"
    by (simp add: scenario_env_def)
  have v: "validateStatus 200"
    by (simp add: validateStatus_def)
  have nn: "JObj [(''access_token'', JStr ''AT''), (''id_token'', JStr ''IT''),
                  (''refresh_token'', JStr ''RT'')] \<noteq> JNull"
    by simp
  have id: "resolved_id scenario_env scenario_request = ''k3x9''"
    by (simp add: resolved_id_def getSessionId_def scenario_request_def scenario_env_def)
  have stored: "sessions_get ?st ''k3x9'' =
        Some \<lparr>idToken = Some (JStr ''IT''), accessToken = Some (JStr ''AT''),
              refreshToken = Some (JStr ''RT''),
              userInfo = Some (JObj [(''preferred_username'', JStr ''joao'')]),
              isAuthenticated = True\<rparr>"
    using callback_stored_session [OF q ne t v nn, of default_config initial_state] id
    by (simp add: session_of_def fetched_userInfo_def axios_settle_def validateStatus_def
          js_template_def scenario_env_def)
  have u: "user_status (session_or_anonymous ?st (getSessionId cookie_request)) =
             Inr (green_circle @ '' Authenticated (joao)'',
                  JObj [(''preferred_username'', JStr ''joao'')])"
    by (simp add: cookie_request_id session_or_anonymous_def stored user_status_def js_or_def
          js_template_def)
  from status_is_pure_read [of cookie_request ?st cookie_request] u cookie_request_id
  show ?thesis
    by simp
qed


section \<open>The logout handler\<close>

lemma logout_idle:
  assumes "\<not> session_active st (getSessionId req)"
  shows "res (logout cfg req st) =
           \<lparr>statusCode = 302, headers = [], location = Some ''/logout-success'', body = None\<rparr>"
    and "sessions (state (logout cfg req st)) = sessions st"
    and "heap (state (logout cfg req st)) = heap st"
    and "trace (logout cfg req st) = [Redirect ''/logout-success'']"
  using assms
  by (cases "sessions_get st (getSessionId req)";
      simp add: logout_def logout_inactive_def session_active_def Let_def new_ctx_def
        res_redirect_def emit_def addLog_proj)+

lemma logout_active:
  assumes "sessions_get st (getSessionId req) = Some s" and "isAuthenticated s"
    and "id_token_hint (idToken s) = Inr hint"
  shows "res (logout cfg req st) =
           \<lparr>statusCode = 302,
            headers = [(''Set-Cookie'', ''sessionId=; HttpOnly; Path=/; Max-Age=0'')],
            location = Some (endpoint cfg @ ''/protocol/openid-connect/logout?'' @
                             ''client_id='' @ clientId cfg @ ''&'' @
                             ''post_logout_redirect_uri='' @
                             encodeURIComponent (logoutRedirectUri cfg) @ hint),
            body = None\<rparr>"
    and "sessions (state (logout cfg req st)) = AList.delete (getSessionId req) (sessions st)"
    and "heap (state (logout cfg req st)) = heap st"
    and "trace (logout cfg req st) =
           [SessionsDelete (getSessionId req),
            SetHeader ''Set-Cookie'' ''sessionId=; HttpOnly; Path=/; Max-Age=0'',
            Redirect (endpoint cfg @ ''/protocol/openid-connect/logout?'' @
                      ''client_id='' @ clientId cfg @ ''&'' @
                      ''post_logout_redirect_uri='' @
                      encodeURIComponent (logoutRedirectUri cfg) @ hint)]"
  using assms
  by (simp_all add: logout_def Let_def new_ctx_def res_redirect_def res_setHeader_def emit_def
        addLog_proj sessions_delete_proj)

lemma logout_thrown:
  assumes "sessions_get st (getSessionId req) = Some s" and "isAuthenticated s"
    and "id_token_hint (idToken s) = Inl thrown"
  shows "res (logout cfg req st) =
           \<lparr>statusCode = 500, headers = [], location = None,
            body = Some (ErrorBody \<lparr>p_error = ''Internal server error'',
                                    p_message = error_message thrown\<rparr>)\<rparr>"
    and "sessions (state (logout cfg req st)) = sessions st"
    and "heap (state (logout cfg req st)) = heap st"
  using assms
  by (simp_all add: logout_def Let_def errorMiddleware_proj)

lemma id_token_hint_printed:
  "js_template token = Inr printed \<Longrightarrow>
     id_token_hint token = Inr (if js_truthy token then ''&id_token_hint='' @ printed else [])"
  by (simp add: id_token_hint_def)

text \<open>A token that fails the truth test of line 489 is never converted.\<close>

lemma id_token_hint_absent: "\<not> js_truthy token \<Longrightarrow> id_token_hint token = Inr []"
  by (simp add: id_token_hint_def)

lemma session_active_obtain:
  assumes "session_active st k"
  obtains s where "sessions_get st k = Some s" and "isAuthenticated s"
  using assms by (auto simp add: session_active_def split: option.splits)

lemma logout_store:
  "heap (state (logout cfg req st)) = heap st"
  "sessions (state (logout cfg req st)) = sessions st
   \<or> sessions (state (logout cfg req st)) = AList.delete (getSessionId req) (sessions st)"
proof -
  have "heap (state (logout cfg req st)) = heap st
    \<and> (sessions (state (logout cfg req st)) = sessions st
       \<or> sessions (state (logout cfg req st)) = AList.delete (getSessionId req) (sessions st))"
  proof (cases "session_active st (getSessionId req)")
    case True
    then obtain s where s: "sessions_get st (getSessionId req) = Some s" "isAuthenticated s"
      by (rule session_active_obtain)
    show ?thesis
    proof (cases "id_token_hint (idToken s)")
      case (Inl thrown)
      with s show ?thesis
        by (simp add: logout_thrown)
    next
      case (Inr hint)
      with s show ?thesis
        by (simp add: logout_active)
    qed
  next
    case False
    then show ?thesis
      by (simp add: logout_idle)
  qed
  then show "heap (state (logout cfg req st)) = heap st"
    and "sessions (state (logout cfg req st)) = sessions st
         \<or> sessions (state (logout cfg req st)) = AList.delete (getSessionId req) (sessions st)"
    by simp_all
qed

lemma sessions_get_frame:
  "sessions st' = sessions st \<Longrightarrow> heap st' = heap st \<Longrightarrow> sessions_get st' k = sessions_get st k"
  unfolding sessions_get_def by metis

lemma sessions_get_deleted:
  "sessions st' = AList.delete k (sessions st) \<Longrightarrow> sessions_get st' k = None"
  by (simp add: sessions_get_def delete_conv)

text \<open>
  Claim C6, as stated: every logout request (Leg D) whose resolved session id maps to a
  stored, authenticated session deletes the entry, clears the cookie and redirects to
  the provider's logout URL. It fails for the session stored by a callback whose token
  reply carries the id token \<^verbatim>\<open>{"toString": 1}\<close>: line 489 throws on it before the
  entry is deleted, the error handler answers 500, the session stays stored and the
  cookie is not cleared.
\<close>

theorem logout_toString_counterexample:
  "session_active (state (callback default_config toString_env scenario_request initial_state))
     (getSessionId cookie_request)
   \<and> statusCode (res (logout default_config cookie_request
        (state (callback default_config toString_env scenario_request initial_state)))) = 500
   \<and> location (res (logout default_config cookie_request
        (state (callback default_config toString_env scenario_request initial_state)))) = None
   \<and> \<not> clears_cookie (res (logout default_config cookie_request
        (state (callback default_config toString_env scenario_request initial_state))))
   \<and> session_active (state (logout default_config cookie_request
        (state (callback default_config toString_env scenario_request initial_state))))
        (getSessionId cookie_request)"
proof -
  let ?st = "state (callback default_config toString_env scenario_request initial_state)"
  let ?s = "\<lparr>idToken = Some toString_object, accessToken = Some (JStr ''AT''), refreshToken = None,
           userInfo = Some (JObj [(''preferred_username'', toString_object)]),
           isAuthenticated = True\<rparr>"
  have stored: "sessions_get ?st (getSessionId cookie_request) = Some ?s"
    by (simp add: cookie_request_id toString_callback)
  have auth: "isAuthenticated ?s"
    by simp
  have thrown: "id_token_hint (idToken ?s) = Inl (TypeError ''Cannot convert object to primitive value'')"
    by (simp add: id_token_hint_def js_template_def toString_object_def)
  note l = logout_thrown [OF stored auth thrown, of default_config]
  have after: "sessions_get (state (logout default_config cookie_request ?st))
                 (getSessionId cookie_request) = Some ?s"
    using sessions_get_frame [OF l(2) l(3)] stored by simp
  from l(1) stored after show ?thesis
    by (simp add: session_active_def clears_cookie_def)
qed

text \<open>
  Claim C6, amended. A logout request (Leg D) whose resolved session id maps to a
  stored, authenticated session whose id token can be converted to a string (every JSON
  value but an object with a member named \<^verbatim>\<open>toString\<close>, or an array that holds one): the
  handler deletes that entry, so that a lookup of the id afterwards finds nothing; it
  clears the session cookie (same name, empty value, max-age 0); it redirects (302) to
  the provider's logout URL, which ends in an \<^verbatim>\<open>id_token_hint\<close> parameter when the
  session's id token is present (a value that passes the source's truth test) and has no
  such part when it is not; and the deletion comes before the redirect in the order of
  events.
\<close>

theorem logout_active_session:
  assumes "sessions_get st (getSessionId req) = Some s" and "isAuthenticated s"
    and "js_template (idToken s) = Inr printed"
  shows "sessions_get (state (logout cfg req st)) (getSessionId req) = None
    \<and> clears_cookie (res (logout cfg req st))
    \<and> statusCode (res (logout cfg req st)) = 302
    \<and> location (res (logout cfg req st)) =
        Some (endpoint cfg @ ''/protocol/openid-connect/logout?'' @
              ''client_id='' @ clientId cfg @ ''&'' @
              ''post_logout_redirect_uri='' @ encodeURIComponent (logoutRedirectUri cfg) @
              (if js_truthy (idToken s) then ''&id_token_hint='' @ printed else []))
    \<and> trace (logout cfg req st) =
        [SessionsDelete (getSessionId req),
         SetHeader ''Set-Cookie'' ''sessionId=; HttpOnly; Path=/; Max-Age=0'',
         Redirect (endpoint cfg @ ''/protocol/openid-connect/logout?'' @
                   ''client_id='' @ clientId cfg @ ''&'' @
                   ''post_logout_redirect_uri='' @ encodeURIComponent (logoutRedirectUri cfg) @
                   (if js_truthy (idToken s) then ''&id_token_hint='' @ printed else []))]"
  using logout_active [OF assms(1,2) id_token_hint_printed [OF assms(3)], of cfg]
    sessions_get_deleted [of "state (logout cfg req st)" "getSessionId req" st]
  by (simp add: clears_cookie_def)

theorem logout_active_session_witness:
  "sessions_get logout_scenario_state (getSessionId logout_scenario_request) =
     Some \<lparr>idToken = Some (JStr ''IT''), accessToken = None, refreshToken = None,
           userInfo = None, isAuthenticated = True\<rparr>
   \<and> js_template (Some (JStr ''IT'')) = Inr ''IT''
   \<and> sessions_get (state (logout default_config logout_scenario_request logout_scenario_state)) ''S'' = None
   \<and> clears_cookie (res (logout default_config logout_scenario_request logout_scenario_state))
   \<and> statusCode (res (logout default_config logout_scenario_request logout_scenario_state)) = 302
   \<and> location (res (logout default_config logout_scenario_request logout_scenario_state)) =
       Some (''https://auth-dev.curriculobe.com.br/realms/bestema-dev/protocol/openid-connect/logout?'' @
             ''client_id=&post_logout_redirect_uri=http%3A%2F%2Flocalhost%3A3000%2Flogout-success'' @
             ''&id_token_hint=IT'')"
proof -
  have id: "getSessionId logout_scenario_request = ''S''"
    by (simp add: logout_scenario_request_def getSessionId_def trim_def startsWith_def
          js_whitespace_def)
  have stored: "sessions_get logout_scenario_state ''S'' =
     Some \<lparr>idToken = Some (JStr ''IT''), accessToken = None, refreshToken = None,
           userInfo = None, isAuthenticated = True\<rparr>"
    by (simp add: logout_scenario_state_def sessions_get_def)
  have enc: "encodeURIComponent ''http://localhost:3000/logout-success''
               = ''http%3A%2F%2Flocalhost%3A3000%2Flogout-success''"
    by (simp add: encodeURIComponent_def uri_unreserved_def hex_digit_def)
  have pr: "js_template (Some (JStr ''IT'')) = Inr ''IT''"
    by (simp add: js_template_def)
  show ?thesis
    using logout_active_session [of logout_scenario_state logout_scenario_request
            "\<lparr>idToken = Some (JStr ''IT''), accessToken = None, refreshToken = None,
              userInfo = None, isAuthenticated = True\<rparr>" "''IT''" default_config]
    by (simp add: id stored enc pr default_config_def)
qed

text \<open>
  Claim C8. A logout request (Leg D) whose resolved session id has no stored entry, or
  a stored entry that is not authenticated: the handler redirects (302) straight to
  \<^verbatim>\<open>/logout-success\<close>, makes no call to the identity provider, and leaves the session
  store unchanged.
\<close>

theorem logout_without_session:
  assumes "sessions_get st (getSessionId req) = None
           \<or> (\<exists>s. sessions_get st (getSessionId req) = Some s \<and> \<not> isAuthenticated s)"
  shows "statusCode (res (logout cfg req st)) = 302
    \<and> location (res (logout cfg req st)) = Some ''/logout-success''
    \<and> filter outbound (trace (logout cfg req st)) = []
    \<and> sessions (state (logout cfg req st)) = sessions st
    \<and> heap (state (logout cfg req st)) = heap st"
proof -
  from assms have "\<not> session_active st (getSessionId req)"
    by (auto simp add: session_active_def)
  from logout_idle [OF this, of cfg] show ?thesis
    by simp
qed

theorem logout_without_session_witness:
  "sessions_get initial_state (getSessionId bare_request) = None
   \<and> statusCode (res (logout default_config bare_request initial_state)) = 302
   \<and> location (res (logout default_config bare_request initial_state)) = Some ''/logout-success''
   \<and> filter outbound (trace (logout default_config bare_request initial_state)) = []
   \<and> sessions (state (logout default_config bare_request initial_state)) = []"
  using logout_without_session [of initial_state bare_request default_config]
  by (simp add: sessions_get_def initial_state_def)

text \<open>
  Claim C9, as stated: every logout request (Leg D) is answered with a response that
  clears the \<^verbatim>\<open>sessionId\<close> cookie. It fails for a logout with no active session: the
  response of the first request to a fresh server sets no header at all.
\<close>

theorem logout_cookie_counterexample:
  "\<not> clears_cookie (res (logout default_config bare_request initial_state))
   \<and> headers (res (logout default_config bare_request initial_state)) = []"
  by (simp add: logout_def logout_inactive_def Let_def sessions_get_def initial_state_def
        new_ctx_def res_redirect_def emit_def addLog_proj clears_cookie_def)

text \<open>
  Claim C9, amended. The response to a logout request (Leg D) clears the \<^verbatim>\<open>sessionId\<close>
  cookie (empty value, max-age 0) when the resolved session id maps to a stored,
  authenticated session whose id token can be converted to a string. A logout request
  without a stored, authenticated session is redirected (302) to \<^verbatim>\<open>/logout-success\<close>
  with no \<^verbatim>\<open>Set-Cookie\<close> header (the early return of lines 480 to 483). Where the
  conversion of the id token throws, at line 489, the error handler answers 500, again
  with no \<^verbatim>\<open>Set-Cookie\<close> header.
\<close>

theorem logout_cookie_by_session:
  "(\<not> session_active st (getSessionId req)
      \<longrightarrow> statusCode (res (logout cfg req st)) = 302
          \<and> location (res (logout cfg req st)) = Some ''/logout-success''
          \<and> headers (res (logout cfg req st)) = [])
   \<and> (\<forall>s printed. sessions_get st (getSessionId req) = Some s \<and> isAuthenticated s
          \<and> js_template (idToken s) = Inr printed
        \<longrightarrow> clears_cookie (res (logout cfg req st))
            \<and> headers (res (logout cfg req st)) =
                [(''Set-Cookie'', ''sessionId=; HttpOnly; Path=/; Max-Age=0'')])
   \<and> (\<forall>s thrown. sessions_get st (getSessionId req) = Some s \<and> isAuthenticated s
          \<and> id_token_hint (idToken s) = Inl thrown
        \<longrightarrow> statusCode (res (logout cfg req st)) = 500
            \<and> headers (res (logout cfg req st)) = [])"
proof (intro conjI allI impI)
  assume "\<not> session_active st (getSessionId req)"
  from logout_idle(1) [OF this, of cfg]
  show "statusCode (res (logout cfg req st)) = 302"
    and "location (res (logout cfg req st)) = Some ''/logout-success''"
    and "headers (res (logout cfg req st)) = []"
    by simp_all
next
  fix s printed
  assume "sessions_get st (getSessionId req) = Some s \<and> isAuthenticated s
          \<and> js_template (idToken s) = Inr printed"
  then have "sessions_get st (getSessionId req) = Some s" and "isAuthenticated s"
    and "id_token_hint (idToken s) =
           Inr (if js_truthy (idToken s) then ''&id_token_hint='' @ printed else [])"
    by (simp_all add: id_token_hint_printed)
  from logout_active(1) [OF this, of cfg]
  show "clears_cookie (res (logout cfg req st))"
    and "headers (res (logout cfg req st)) =
           [(''Set-Cookie'', ''sessionId=; HttpOnly; Path=/; Max-Age=0'')]"
    by (simp_all add: clears_cookie_def)
next
  fix s thrown
  assume "sessions_get st (getSessionId req) = Some s \<and> isAuthenticated s
          \<and> id_token_hint (idToken s) = Inl thrown"
  then have "sessions_get st (getSessionId req) = Some s" and "isAuthenticated s"
    and "id_token_hint (idToken s) = Inl thrown"
    by simp_all
  from logout_thrown(1) [OF this, of cfg]
  show "statusCode (res (logout cfg req st)) = 500"
    and "headers (res (logout cfg req st)) = []"
    by simp_all
qed

theorem logout_cookie_by_session_witness:
  "\<not> session_active initial_state (getSessionId bare_request)
   \<and> location (res (logout default_config bare_request initial_state)) = Some ''/logout-success''
   \<and> headers (res (logout default_config bare_request initial_state)) = []
   \<and> sessions_get logout_scenario_state (getSessionId logout_scenario_request) =
       Some \<lparr>idToken = Some (JStr ''IT''), accessToken = None, refreshToken = None,
             userInfo = None, isAuthenticated = True\<rparr>
   \<and> js_template (Some (JStr ''IT'')) = Inr ''IT''
   \<and> clears_cookie (res (logout default_config logout_scenario_request logout_scenario_state))"
proof -
  have a: "\<not> session_active initial_state (getSessionId bare_request)"
    by (simp add: session_active_def sessions_get_def initial_state_def)
  have id: "getSessionId logout_scenario_request = ''S''"
    by (simp add: logout_scenario_request_def getSessionId_def trim_def startsWith_def
          js_whitespace_def)
  have stored: "sessions_get logout_scenario_state ''S'' =
     Some \<lparr>idToken = Some (JStr ''IT''), accessToken = None, refreshToken = None,
           userInfo = None, isAuthenticated = True\<rparr>"
    by (simp add: logout_scenario_state_def sessions_get_def)
  have pr: "js_template (Some (JStr ''IT'')) = Inr ''IT''"
    by (simp add: js_template_def)
  from logout_cookie_by_session [of initial_state bare_request default_config] a
  have idle: "location (res (logout default_config bare_request initial_state)) = Some ''/logout-success''"
    "headers (res (logout default_config bare_request initial_state)) = []"
    by simp_all
  from logout_cookie_by_session [of logout_scenario_state logout_scenario_request default_config]
    id stored pr
  have "clears_cookie (res (logout default_config logout_scenario_request logout_scenario_state))"
    by simp
  with a idle id stored pr show ?thesis
    by simp
qed

section \<open>The invariant of the session store\<close>

text \<open>
  What a callback leaves in the store: either nothing new, or the one session built from
  a 2xx token reply, under the resolved id.
\<close>

lemma callback_store:
  "(sessions (state (callback cfg env req st)) = sessions st
      \<and> heap (state (callback cfg env req st)) = heap st)
   \<or> (\<exists>sc data. token_reply env = HttpResponse sc data \<and> validateStatus sc
        \<and> sessions (state (callback cfg env req st)) =
            AList.update (resolved_id env req) (allocated st) (sessions st)
        \<and> heap (state (callback cfg env req st)) =
            (heap st)(allocated st \<mapsto>
               session_of data\<lparr>userInfo := fetched_userInfo (js_member data ''access_token'')
                                               (userinfo_reply env)\<rparr>))"
proof (cases "query_code req = None \<or> query_code req = Some []
           \<or> call_fails (token_reply env) \<or> (\<exists>sc. token_reply env = HttpResponse sc JNull)")
  case True
  then show ?thesis
    using callback_unchanged [of req env cfg st] by blast
next
  case False
  then obtain code sc data where "query_code req = Some code" "code \<noteq> []"
    "token_reply env = HttpResponse sc data" "validateStatus sc" "data \<noteq> JNull"
    by (cases "query_code req"; cases "token_reply env") (auto simp add: call_fails_def)
  then show ?thesis
    using callback_token_ok(2,3) [of req code env sc data cfg st] by simp
qed

lemma all_sessions_frame:
  "all_sessions P st \<Longrightarrow> sessions st' = sessions st \<Longrightarrow> heap st' = heap st
     \<Longrightarrow> all_sessions P st'"
  by (simp add: all_sessions_def)

lemma all_sessions_delete:
  assumes "all_sessions P st" and "sessions st' = AList.delete k (sessions st)"
    and "heap st' = heap st"
  shows "all_sessions P st'"
  using assms by (auto simp add: all_sessions_def list_all_iff AList.delete_eq)

lemma set_update_subset: "set (AList.update k v al) \<subseteq> insert (k, v) (set al)"
  by (induction al) auto

lemma all_sessions_update:
  assumes "all_sessions P st" and "P s"
    and "sessions st' = AList.update k r (sessions st)" and "heap st' = (heap st)(r \<mapsto> s)"
  shows "all_sessions P st'"
proof -
  have "set (AList.update k r (sessions st)) \<subseteq> insert (k, r) (set (sessions st))"
    by (rule set_update_subset)
  with assms show ?thesis
    by (auto simp add: all_sessions_def list_all_iff split: option.splits)
qed

lemma all_sessions_get:
  assumes "all_sessions P st" and "sessions_get st k = Some s"
  shows "P s"
proof -
  from assms(2) obtain r where r: "map_of (sessions st) k = Some r" and h: "heap st r = Some s"
    by (auto simp add: sessions_get_def split: option.splits)
  from r have "(k, r) \<in> set (sessions st)"
    by (rule map_of_SomeD)
  with assms(1) h show ?thesis
    by (auto simp add: all_sessions_def list_all_iff)
qed

text \<open>
  One request keeps a property of all stored sessions if every session a callback can
  build from a 2xx token reply has the property.
\<close>

lemma handle_preserves:
  assumes "all_sessions P st"
    and "\<And>env sc data ui. l = Callback env \<Longrightarrow> token_reply env = HttpResponse sc data
           \<Longrightarrow> validateStatus sc \<Longrightarrow> P (session_of data\<lparr>userInfo := ui\<rparr>)"
  shows "all_sessions P (state (handle cfg l req st))"
proof (cases l)
  case Login
  have "all_sessions P (state (login cfg req st))"
    using assms(1) login_frame by (rule all_sessions_frame)
  with Login show ?thesis
    by simp
next
  case (Callback env)
  have "all_sessions P (state (callback cfg env req st))"
    using callback_store [of cfg env req st]
  proof (elim disjE conjE exE)
    assume "sessions (state (callback cfg env req st)) = sessions st"
      and "heap (state (callback cfg env req st)) = heap st"
    with assms(1) show ?thesis
      by (rule all_sessions_frame)
  next
    fix sc data
    assume "token_reply env = HttpResponse sc data" and "validateStatus sc"
      and s: "sessions (state (callback cfg env req st)) =
                AList.update (resolved_id env req) (allocated st) (sessions st)"
      and h: "heap (state (callback cfg env req st)) =
                (heap st)(allocated st \<mapsto>
                   session_of data\<lparr>userInfo := fetched_userInfo (js_member data ''access_token'')
                                               (userinfo_reply env)\<rparr>)"
    with Callback have "P (session_of data\<lparr>userInfo := fetched_userInfo (js_member data ''access_token'')
                                               (userinfo_reply env)\<rparr>)"
      by (intro assms(2))
    with assms(1) show ?thesis
      using s h by (rule all_sessions_update)
  qed
  with Callback show ?thesis
    by simp
next
  case Status
  have "all_sessions P (state (status req st))"
    using assms(1) status_frame by (rule all_sessions_frame)
  with Status show ?thesis
    by simp
next
  case Logout
  have "all_sessions P (state (logout cfg req st))"
    using logout_store(2) [of cfg req st]
  proof
    assume "sessions (state (logout cfg req st)) = sessions st"
    with assms(1) show ?thesis
      using logout_store(1) by (rule all_sessions_frame)
  next
    assume "sessions (state (logout cfg req st)) = AList.delete (getSessionId req) (sessions st)"
    with assms(1) show ?thesis
      using logout_store(1) by (rule all_sessions_delete)
  qed
  with Logout show ?thesis
    by simp
qed

lemma run_authenticated:
  "all_sessions isAuthenticated st \<Longrightarrow> all_sessions isAuthenticated (run cfg evs st)"
proof (induction evs arbitrary: st)
  case Nil
  then show ?case by simp
next
  case (Cons e evs)
  obtain l req where e: "e = (l, req)"
    by (cases e)
  have "all_sessions isAuthenticated (state (handle cfg l req st))"
    using Cons.prems by (rule handle_preserves) (simp add: session_of_def)
  then have "all_sessions isAuthenticated (run cfg evs (state (handle cfg l req st)))"
    by (rule Cons.IH)
  with e show ?case
    by simp
qed

lemma run_tokens_populated:
  "all_sessions tokens_populated st \<Longrightarrow> list_all carries_tokens evs
     \<Longrightarrow> all_sessions tokens_populated (run cfg evs st)"
proof (induction evs arbitrary: st)
  case Nil
  then show ?case by simp
next
  case (Cons e evs)
  obtain l req where e: "e = (l, req)"
    by (cases e)
  from Cons.prems(2) e have c: "carries_tokens (l, req)" and rest: "list_all carries_tokens evs"
    by simp_all
  have "all_sessions tokens_populated (state (handle cfg l req st))"
    using Cons.prems(1)
  proof (rule handle_preserves)
    fix env sc data ui
    assume "l = Callback env" and "token_reply env = HttpResponse sc data" and "validateStatus sc"
    with c show "tokens_populated (session_of data\<lparr>userInfo := ui\<rparr>)"
      by (simp add: tokens_populated_def session_of_def)
  qed
  then have "all_sessions tokens_populated (run cfg evs (state (handle cfg l req st)))"
    using rest by (rule Cons.IH)
  with e show ?case
    by simp
qed

text \<open>
  Claim C2, as stated: every entry of the store has \<^verbatim>\<open>isAuthenticated = true\<close> and at
  least its \<^verbatim>\<open>idToken\<close> and \<^verbatim>\<open>accessToken\<close> populated. It fails after one callback whose
  2xx token reply carries an access token and no id token: the session is stored as
  authenticated with \<^verbatim>\<open>idToken\<close> undefined.
\<close>

theorem store_tokens_counterexample:
  "sessions_get (run default_config [(Callback no_id_token_env, scenario_request)] initial_state)
     ''k3x9'' =
     Some \<lparr>idToken = None, accessToken = Some (JStr ''AT''), refreshToken = None,
           userInfo = None, isAuthenticated = True\<rparr>
   \<and> \<not> all_sessions tokens_populated
         (run default_config [(Callback no_id_token_env, scenario_request)] initial_state)"
proof -
  have q: "query_code scenario_request = Some ''abc''" and ne: "''abc'' \<noteq> []"
    by (simp_all add: scenario_request_def)
  have t: "token_reply no_id_token_env = HttpResponse 200 (JObj [(''access_token'', JStr ''AT'')])"
    by (simp add: no_id_token_env_def)
  have v: "validateStatus 200"
    by (simp add: validateStatus_def)
  have nn: "JObj [(''access_token'', JStr ''AT'')] \<noteq> JNull"
    by simp
  have id: "resolved_id no_id_token_env scenario_request = ''k3x9''"
    by (simp add: resolved_id_def getSessionId_def scenario_request_def no_id_token_env_def)
  have u: "fetched_userInfo (Some (JStr ''AT'')) (userinfo_reply no_id_token_env) = None"
    by (simp add: fetched_userInfo_def axios_settle_def no_id_token_env_def js_template_def)
  note ok = callback_token_ok(2,3) [OF q ne t v nn, of default_config initial_state]
  from ok id u show ?thesis
    by (simp add: sessions_get_def all_sessions_def tokens_populated_def session_of_def
          initial_state_def)
qed

text \<open>
  Claim C2, amended. Every operation (Legs A to D), and so every sequence of them, keeps
  this invariant of the session store: every entry present has
  \<^verbatim>\<open>isAuthenticated = true\<close>, so a session with \<^verbatim>\<open>isAuthenticated = false\<close> is never
  stored. The token fields hold what the token reply carried: \<^verbatim>\<open>idToken\<close> and
  \<^verbatim>\<open>accessToken\<close> of every entry stay populated as long as every 2xx token reply carries
  an id token and an access token.
\<close>

theorem session_store_invariant:
  assumes "all_sessions isAuthenticated st"
  shows "all_sessions isAuthenticated (run cfg evs st)
    \<and> (\<forall>k s. sessions_get (run cfg evs st) k = Some s \<longrightarrow> isAuthenticated s)
    \<and> (all_sessions tokens_populated st \<and> list_all carries_tokens evs
         \<longrightarrow> all_sessions tokens_populated (run cfg evs st)
             \<and> (\<forall>k s. sessions_get (run cfg evs st) k = Some s \<longrightarrow> tokens_populated s))"
proof (intro conjI allI impI)
  show a: "all_sessions isAuthenticated (run cfg evs st)"
    using assms by (rule run_authenticated)
  show "isAuthenticated s" if "sessions_get (run cfg evs st) k = Some s" for k s
    using a that by (rule all_sessions_get)
next
  assume p: "all_sessions tokens_populated st \<and> list_all carries_tokens evs"
  then show t: "all_sessions tokens_populated (run cfg evs st)"
    by (simp add: run_tokens_populated)
  show "tokens_populated s" if "sessions_get (run cfg evs st) k = Some s" for k s
    using t that by (rule all_sessions_get)
qed

theorem session_store_invariant_witness:
  "all_sessions isAuthenticated initial_state
   \<and> all_sessions tokens_populated initial_state
   \<and> list_all carries_tokens
       [(Login, bare_request), (Callback scenario_env, scenario_request), (Status, cookie_request)]
   \<and> all_sessions isAuthenticated
       (run default_config
          [(Login, bare_request), (Callback scenario_env, scenario_request), (Status, cookie_request)]
          initial_state)
   \<and> all_sessions tokens_populated
       (run default_config
          [(Login, bare_request), (Callback scenario_env, scenario_request), (Status, cookie_request)]
          initial_state)"
proof -
  have i: "all_sessions isAuthenticated initial_state"
    and p: "all_sessions tokens_populated initial_state"
    by (simp_all add: all_sessions_def initial_state_def)
  have c: "list_all carries_tokens
       [(Login, bare_request), (Callback scenario_env, scenario_request), (Status, cookie_request)]"
    by (simp add: scenario_env_def validateStatus_def)
  from session_store_invariant [OF i, of default_config
         "[(Login, bare_request), (Callback scenario_env, scenario_request), (Status, cookie_request)]"]
    i p c
  show ?thesis
    by blast
qed

section \<open>The session cookie, written and read back\<close>

text \<open>
  The callback handler writes the resolved id into the cookie as it is (line 450), and
  \<open>getSessionId\<close> is the code that reads it on the next request. For an id with an
  equals sign, as a Basic \<^verbatim>\<open>Authorization\<close> header has, the two disagree: the session is
  stored under the full id, and the request that returns the cookie resolves to a
  shorter id with no session.
\<close>

lemma session_cookie_not_read_back:
  "map_of (headers (res (callback default_config scenario_env basic_auth_request initial_state)))
     ''Set-Cookie'' = Some ''sessionId=Basic dXNlcjpwdw==; HttpOnly; Path=/; Max-Age=86400''
   \<and> session_active (state (callback default_config scenario_env basic_auth_request initial_state))
        ''Basic dXNlcjpwdw==''
   \<and> getSessionId \<lparr>cookie = Some ''sessionId=Basic dXNlcjpwdw=='', authorization = None,
                    query_code = None\<rparr> = ''Basic dXNlcjpwdw''
   \<and> \<not> session_active (state (callback default_config scenario_env basic_auth_request initial_state))
          ''Basic dXNlcjpwdw''"
proof -
  have q: "query_code basic_auth_request = Some ''abc''" and ne: "''abc'' \<noteq> []"
    by (simp_all add: basic_auth_request_def)
  have t: "token_reply scenario_env =
             HttpResponse 200 (JObj [(''access_token'', JStr ''AT''), (''id_token'', JStr ''IT''),
                                     (''refresh_token'', JStr ''RT'')])"
    by (simp add: scenario_env_def)
  have v: "validateStatus 200"
    by (simp add: validateStatus_def)
  have nn: "JObj [(''access_token'', JStr ''AT''), (''id_token'', JStr ''IT''),
                  (''refresh_token'', JStr ''RT'')] \<noteq> JNull"
    by simp
  have id: "resolved_id scenario_env basic_auth_request = ''Basic dXNlcjpwdw==''"
    by (simp add: resolved_id_def getSessionId_def basic_auth_request_def)
  have g: "getSessionId \<lparr>cookie = Some ''sessionId=Basic dXNlcjpwdw=='', authorization = None,
                          query_code = None\<rparr> = ''Basic dXNlcjpwdw''"
    by (simp add: getSessionId_def trim_def startsWith_def js_whitespace_def)
  note ok = callback_token_ok(1,2,3) [OF q ne t v nn, of default_config initial_state]
  from ok id g show ?thesis
    by (simp add: session_active_def sessions_get_def session_of_def initial_state_def)
qed

end
